theory Spec2Isabelle
  imports Complex_Main
begin

section \<open>JavaScript strings\<close>

text \<open>
  A JavaScript string is a sequence of UTF-16 code units. The model uses \<^typ>\<open>string\<close>,
  one \<^typ>\<open>char\<close> per code unit, so it covers the strings whose code units are below 256
  (ASCII and Latin-1). Lengths and indices count code units, as \<open>String.length\<close> does.
\<close>

text \<open>White space of \<open>String.prototype.trim\<close> and of the class \<open>\s\<close>, below code unit 256:
  tab, line feed, vertical tab, form feed, carriage return, space, no-break space.\<close>

definition isSpace :: "char \<Rightarrow> bool" where
  "isSpace c = (c \<in> set [CHR 0x09, CHR 0x0A, CHR 0x0B, CHR 0x0C, CHR 0x0D, CHR 0x20, CHR 0xA0])"

definition trim :: "string \<Rightarrow> string" where
  "trim s = rev (dropWhile isSpace (rev (dropWhile isSpace s)))"

definition startsWith :: "string \<Rightarrow> string \<Rightarrow> bool" where
  "startsWith s p = (take (length p) s = p)"

definition endsWith :: "string \<Rightarrow> string \<Rightarrow> bool" where
  "endsWith s p = (length p \<le> length s \<and> drop (length s - length p) s = p)"

text \<open>\<open>s.indexOf(p)\<close>: the first index at which \<open>p\<close> occurs, \<open>None\<close> for \<open>-1\<close>.\<close>

fun indexOf :: "string \<Rightarrow> string \<Rightarrow> nat option" where
  "indexOf [] p = (if p = [] then Some 0 else None)"
| "indexOf (c # cs) p =
     (if startsWith (c # cs) p then Some 0 else map_option Suc (indexOf cs p))"

definition includesStr :: "string \<Rightarrow> string \<Rightarrow> bool" where
  "includesStr s p = (indexOf s p \<noteq> None)"

text \<open>\<open>s.lastIndexOf(c)\<close> for a single character, \<open>-1\<close> when it does not occur.\<close>

definition lastIndexOf :: "string \<Rightarrow> char \<Rightarrow> int" where
  "lastIndexOf s c =
     (case filter (\<lambda>i. s ! i = c) (rev [0..<length s]) of [] \<Rightarrow> - 1 | i # _ \<Rightarrow> int i)"

text \<open>\<open>s.split(c)\<close> for a single-character separator: never the empty list.\<close>

fun splitOn :: "char \<Rightarrow> string \<Rightarrow> string list" where
  "splitOn c [] = [[]]"
| "splitOn c (x # xs) =
     (if x = c then [] # splitOn c xs
      else (case splitOn c xs of [] \<Rightarrow> [[x]] | p # ps \<Rightarrow> (x # p) # ps))"

fun joinWith :: "string \<Rightarrow> string list \<Rightarrow> string" where
  "joinWith sep [] = []"
| "joinWith sep [x] = x"
| "joinWith sep (x # y # ys) = x @ sep @ joinWith sep (y # ys)"

text \<open>\<open>xs.slice(-n)\<close>: the last \<open>n\<close> elements (all of them when there are fewer).\<close>

definition sliceLast :: "nat \<Rightarrow> 'a list \<Rightarrow> 'a list" where
  "sliceLast n xs = drop (length xs - n) xs"

text \<open>\<open>[...new Set(xs)]\<close>: the distinct elements in the order of their first occurrence.\<close>

fun uniqueInOrder :: "'a list \<Rightarrow> 'a list \<Rightarrow> 'a list" where
  "uniqueInOrder seen [] = []"
| "uniqueInOrder seen (x # xs) =
     (if x \<in> set seen then uniqueInOrder seen xs else x # uniqueInOrder (x # seen) xs)"

text \<open>\<open>toLowerCase\<close> on code units below 256: A-Z and the accented capitals 0xC0-0xDE
  (without the multiplication sign 0xD7) move up by 32.\<close>

definition upperChars :: string where
  "upperChars = ''ABCDEFGHIJKLMNOPQRSTUVWXYZ'' @
     [CHR 0xC0, CHR 0xC1, CHR 0xC2, CHR 0xC3, CHR 0xC4, CHR 0xC5, CHR 0xC6, CHR 0xC7,
      CHR 0xC8, CHR 0xC9, CHR 0xCA, CHR 0xCB, CHR 0xCC, CHR 0xCD, CHR 0xCE, CHR 0xCF,
      CHR 0xD0, CHR 0xD1, CHR 0xD2, CHR 0xD3, CHR 0xD4, CHR 0xD5, CHR 0xD6,
      CHR 0xD8, CHR 0xD9, CHR 0xDA, CHR 0xDB, CHR 0xDC, CHR 0xDD, CHR 0xDE]"

definition lowerChars :: string where
  "lowerChars = ''abcdefghijklmnopqrstuvwxyz'' @
     [CHR 0xE0, CHR 0xE1, CHR 0xE2, CHR 0xE3, CHR 0xE4, CHR 0xE5, CHR 0xE6, CHR 0xE7,
      CHR 0xE8, CHR 0xE9, CHR 0xEA, CHR 0xEB, CHR 0xEC, CHR 0xED, CHR 0xEE, CHR 0xEF,
      CHR 0xF0, CHR 0xF1, CHR 0xF2, CHR 0xF3, CHR 0xF4, CHR 0xF5, CHR 0xF6,
      CHR 0xF8, CHR 0xF9, CHR 0xFA, CHR 0xFB, CHR 0xFC, CHR 0xFD, CHR 0xFE]"

definition toLowerChar :: "char \<Rightarrow> char" where
  "toLowerChar c = (case map_of (zip upperChars lowerChars) c of Some l \<Rightarrow> l | None \<Rightarrow> c)"

definition toLowerCase :: "string \<Rightarrow> string" where
  "toLowerCase s = map toLowerChar s"

section \<open>Regular expressions\<close>

text \<open>
  Every regular expression of the program is a sequence of quantified character classes
  (a capture group never holds more than one of them), so a regular expression is a list
  of items. Matching backtracks as the JavaScript matcher does: a greedy quantifier tries
  the longest run first, a lazy one the shortest, and the first choice for which the rest
  of the pattern matches wins. A match returns one piece of text per item (so \<open>$n\<close> is
  the piece of the item the n-th group holds) and the text after the match.
\<close>

datatype quant = One | Opt | Star | Plus | LazyStar

type_synonym item = "(char \<Rightarrow> bool) \<times> quant"
type_synonym regex = "item list"

fun candidates :: "quant \<Rightarrow> nat \<Rightarrow> nat list" where
  "candidates One run = (if 1 \<le> run then [1] else [])"
| "candidates Opt run = (if 1 \<le> run then [1, 0] else [0])"
| "candidates Star run = rev [0..<Suc run]"
| "candidates Plus run = rev [1..<Suc run]"
| "candidates LazyStar run = [0..<Suc run]"

fun rmatch :: "regex \<Rightarrow> string \<Rightarrow> (string list \<times> string) option"
  and rtry :: "regex \<Rightarrow> string \<Rightarrow> nat list \<Rightarrow> (string list \<times> string) option" where
  "rmatch [] s = Some ([], s)"
| "rmatch (it # its) s = rtry its s (candidates (snd it) (length (takeWhile (fst it) s)))"
| "rtry its s [] = None"
| "rtry its s (n # ns) =
     (case rmatch its (drop n s) of
        Some (ps, rest) \<Rightarrow> Some (take n s # ps, rest)
      | None \<Rightarrow> rtry its s ns)"

text \<open>The leftmost match: the text before it, its pieces, the text after it.\<close>

fun rsearch :: "regex \<Rightarrow> string \<Rightarrow> (string \<times> string list \<times> string) option" where
  "rsearch r [] =
     (case rmatch r [] of Some (ps, rest) \<Rightarrow> Some ([], ps, rest) | None \<Rightarrow> None)"
| "rsearch r (c # cs) =
     (case rmatch r (c # cs) of
        Some (ps, rest) \<Rightarrow> Some ([], ps, rest)
      | None \<Rightarrow>
          (case rsearch r cs of
             Some (pre, ps, rest) \<Rightarrow> Some (c # pre, ps, rest)
           | None \<Rightarrow> None))"

text \<open>\<open>s.replace(r, f)\<close> for a regular expression without the \<open>g\<close> flag.\<close>

definition replaceFirst :: "regex \<Rightarrow> (string list \<Rightarrow> string) \<Rightarrow> string \<Rightarrow> string" where
  "replaceFirst r f s =
     (case rsearch r s of Some (pre, ps, rest) \<Rightarrow> pre @ f ps @ rest | None \<Rightarrow> s)"

text \<open>\<open>s.replace(/^.../, f)\<close>: a pattern anchored at the start matches there or nowhere.\<close>

definition replaceAtStart :: "regex \<Rightarrow> (string list \<Rightarrow> string) \<Rightarrow> string \<Rightarrow> string" where
  "replaceAtStart r f s =
     (case rmatch r s of Some (ps, rest) \<Rightarrow> f ps @ rest | None \<Rightarrow> s)"

text \<open>
  With the \<open>g\<close> flag the search goes on after each match; after an empty match it moves on
  by one character.
\<close>

fun replaceAll :: "regex \<Rightarrow> (string list \<Rightarrow> string) \<Rightarrow> string \<Rightarrow> string" where
  "replaceAll r f [] = (case rmatch r [] of Some (ps, rest) \<Rightarrow> f ps | None \<Rightarrow> [])"
| "replaceAll r f (c # cs) =
     (case rmatch r (c # cs) of
        None \<Rightarrow> c # replaceAll r f cs
      | Some (ps, rest) \<Rightarrow>
          (if concat ps = [] then f ps @ c # replaceAll r f cs
           else f ps @ replaceAll r f (drop (length (concat ps)) (c # cs))))"

text \<open>\<open>s.match(r)\<close> and the \<open>exec\<close> loop with the \<open>g\<close> flag: the pieces of every match.\<close>

fun matchAll :: "regex \<Rightarrow> string \<Rightarrow> string list list" where
  "matchAll r [] = (case rmatch r [] of Some (ps, rest) \<Rightarrow> [ps] | None \<Rightarrow> [])"
| "matchAll r (c # cs) =
     (case rmatch r (c # cs) of
        None \<Rightarrow> matchAll r cs
      | Some (ps, rest) \<Rightarrow>
          (if concat ps = [] then ps # matchAll r cs
           else ps # matchAll r (drop (length (concat ps)) (c # cs))))"

text \<open>The text of group \<open>i\<close> (counted from 0 over the items), empty when there is none.\<close>

definition piece :: "nat \<Rightarrow> string list \<Rightarrow> string" where
  "piece i ps = (if i < length ps then ps ! i else [])"

definition chr :: "char \<Rightarrow> char \<Rightarrow> bool" where
  "chr c x = (x = c)"

definition oneOf :: "string \<Rightarrow> char \<Rightarrow> bool" where
  "oneOf cs x = (x \<in> set cs)"

definition noneOf :: "string \<Rightarrow> char \<Rightarrow> bool" where
  "noneOf cs x = (x \<notin> set cs)"

text \<open>The dot: any character but a line terminator; with the \<open>s\<close> flag any character.\<close>

definition dot :: "char \<Rightarrow> bool" where
  "dot x = (x \<noteq> CHR 0x0A \<and> x \<noteq> CHR 0x0D)"

definition dotAll :: "char \<Rightarrow> bool" where
  "dotAll x = True"

definition isDigit :: "char \<Rightarrow> bool" where
  "isDigit x = (x \<in> set ''0123456789'')"

definition isAsciiLetter :: "char \<Rightarrow> bool" where
  "isAsciiLetter x =
     (x \<in> set ''ABCDEFGHIJKLMNOPQRSTUVWXYZabcdefghijklmnopqrstuvwxyz'')"

text \<open>\<open>\w\<close>: letters, digits and the underscore.\<close>

definition isWord :: "char \<Rightarrow> bool" where
  "isWord x = (isAsciiLetter x \<or> isDigit x \<or> x = CHR ''_'')"

text \<open>A pattern character under the \<open>i\<close> flag: an ASCII letter matches both of its cases
  (no other code unit below 256 is folded onto an ASCII letter), any other character
  itself.\<close>

definition otherCase :: "char \<Rightarrow> char" where
  "otherCase c =
     (case map_of (zip (''ABCDEFGHIJKLMNOPQRSTUVWXYZ'' @ ''abcdefghijklmnopqrstuvwxyz'')
                       (''abcdefghijklmnopqrstuvwxyz'' @ ''ABCDEFGHIJKLMNOPQRSTUVWXYZ'')) c of
        Some d \<Rightarrow> d | None \<Rightarrow> c)"

definition chrCI :: "char \<Rightarrow> char \<Rightarrow> bool" where
  "chrCI c = oneOf [c, otherCase c]"

definition lit :: "string \<Rightarrow> regex" where
  "lit s = map (\<lambda>c. (chr c, One)) s"

definition litCI :: "string \<Rightarrow> regex" where
  "litCI s = map (\<lambda>c. (chrCI c, One)) s"

section \<open>The text sanitizer\<close>

text \<open>The leaked prompt phrases of \<open>cleanGeneratedText\<close>: each is \<open>/phrase.*/i\<close>.\<close>

definition irrelevantPatterns :: "regex list" where
  "irrelevantPatterns = map (\<lambda>p. litCI p @ [(dot, Star)])
     [''The protagonist just chose to:'', ''This leads to:'', ''Setting:'',
      ''Describe only what happens'', ''Continue the story'', ''Be vivid but concise'',
      ''Write a brief continuation'', ''The story was first published'',
      ''The book was first published'']"

definition isTerminal :: "char \<Rightarrow> bool" where
  "isTerminal c = (c = CHR ''.'' \<or> c = CHR ''!'' \<or> c = CHR ''?'')"

text \<open>Step 1: trim and drop the echoed prompt.\<close>

definition stripPrompt :: "string \<Rightarrow> string \<Rightarrow> string" where
  "stripPrompt generatedText prompt =
     (let cleanedText = trim generatedText
      in if startsWith cleanedText prompt then trim (drop (length prompt) cleanedText)
         else cleanedText)"

text \<open>Step 2: cut at the first \<open>[{\<close>.\<close>

definition cutJson :: "string \<Rightarrow> string" where
  "cutJson cleanedText =
     (case indexOf cleanedText ''[{'' of
        Some jsonStartIndex \<Rightarrow> trim (take jsonStartIndex cleanedText)
      | None \<Rightarrow> cleanedText)"

text \<open>Step 3: the loop over the patterns; each \<open>replace\<close> removes the first match only.\<close>

definition stripPatterns :: "string \<Rightarrow> string" where
  "stripPatterns cleanedText =
     foldl (\<lambda>t pattern. replaceFirst pattern (\<lambda>ps. []) t) cleanedText irrelevantPatterns"

text \<open>Step 4: \<open>match(/[^.!?]+[.!?]+/g)\<close>, and the deduplication when there is more than one
  sentence.\<close>

definition sentencesOf :: "string \<Rightarrow> string list" where
  "sentencesOf cleanedText =
     map concat (matchAll [(noneOf ''.!?'', Plus), (oneOf ''.!?'', Plus)] cleanedText)"

definition dedupeSentences :: "string \<Rightarrow> string" where
  "dedupeSentences cleanedText =
     (let sentences = sentencesOf cleanedText
      in if 1 < length sentences then joinWith '' '' (uniqueInOrder [] sentences)
         else cleanedText)"

text \<open>Step 5: the length limit. Without a sentence end at a positive index among the first
  300 characters the text is left as it is.\<close>

definition limitLength :: "string \<Rightarrow> string" where
  "limitLength cleanedText =
     (if 300 < length cleanedText then
        (let truncated = take 300 cleanedText;
             lastSentenceEnd = max (lastIndexOf truncated (CHR ''.''))
                                 (max (lastIndexOf truncated (CHR ''!''))
                                      (lastIndexOf truncated (CHR ''?'')))
         in if 0 < lastSentenceEnd then take (nat (lastSentenceEnd + 1)) cleanedText
            else cleanedText)
      else cleanedText)"

text \<open>Step 6: the final cleanup, four global replacements after a trim.\<close>

definition finalCleanup :: "string \<Rightarrow> string" where
  "finalCleanup cleanedText =
     replaceAll [(isTerminal, One), (isSpace, Star), (isTerminal, Plus)] (piece 0)
       (replaceAll [(chr (CHR ''.''), Plus)] (\<lambda>ps. ''.'')
         (replaceAll [(chr (CHR 0x0A), Plus)] (\<lambda>ps. '' '')
           (replaceAll [(isSpace, Plus)] (\<lambda>ps. '' '')
             (trim cleanedText))))"

definition fallbackSentence :: string where
  "fallbackSentence = ''The adventure continues...''"

definition cleanGeneratedText :: "string \<Rightarrow> string \<Rightarrow> string" where
  "cleanGeneratedText generatedText prompt =
     (let cleanedText =
            finalCleanup (limitLength (dedupeSentences (stripPatterns (cutJson
              (stripPrompt generatedText prompt)))))
      in if cleanedText = [] then fallbackSentence else cleanedText)"

section \<open>JSON.parse\<close>

text \<open>
  \<open>JSON.parse\<close> is the library's: a lexer, one character at a time, and a parser with
  an explicit stack over the tokens. \<open>None\<close> is the \<open>SyntaxError\<close>. A number keeps
  its text. An escape \<open>\uXXXX\<close> can name any code unit, so the strings of a parsed value
  are lists of code units given by their high and low byte; a text of the program is
  such a string with every high byte zero.
\<close>

type_synonym unit16 = "char \<times> char"

definition narrowChar :: "char \<Rightarrow> unit16" where
  "narrowChar c = (CHR 0x00, c)"

definition narrow :: "string \<Rightarrow> unit16 list" where
  "narrow s = map narrowChar s"

text \<open>What is thrown: the \<open>SyntaxError\<close> of \<open>JSON.parse\<close>, a \<open>TypeError\<close>, the error of a
  failed generation. \<open>NotRepresented\<close> is no error of the program: it marks a run that goes
  on with a text for which there is no value here, and nothing is said about such a
  run.\<close>

datatype error = SyntaxError | TypeError | GenerationError | NotRepresented

datatype json =
    JNull | JBool bool | JNumber string | JString "unit16 list"
  | JArray "json list" | JObject "(unit16 list \<times> json) list"

datatype token =
    TLBrace | TRBrace | TLBracket | TRBracket | TColon | TComma
  | TString "unit16 list" | TNumber string | TTrue | TFalse | TNull

datatype lexmode =
    LStart | LString "unit16 list" | LEscape "unit16 list" | LHex "unit16 list" string
  | LNumber string | LWord string token

definition isJsonSpace :: "char \<Rightarrow> bool" where
  "isJsonSpace c = (c \<in> set [CHR 0x20, CHR 0x09, CHR 0x0A, CHR 0x0D])"

definition isControl :: "char \<Rightarrow> bool" where
  "isControl c = (c \<in> set
     [CHR 0x00, CHR 0x01, CHR 0x02, CHR 0x03, CHR 0x04, CHR 0x05, CHR 0x06, CHR 0x07,
      CHR 0x08, CHR 0x09, CHR 0x0A, CHR 0x0B, CHR 0x0C, CHR 0x0D, CHR 0x0E, CHR 0x0F,
      CHR 0x10, CHR 0x11, CHR 0x12, CHR 0x13, CHR 0x14, CHR 0x15, CHR 0x16, CHR 0x17,
      CHR 0x18, CHR 0x19, CHR 0x1A, CHR 0x1B, CHR 0x1C, CHR 0x1D, CHR 0x1E, CHR 0x1F])"

definition hexValue :: "char \<Rightarrow> nat option" where
  "hexValue c = map_of
     (zip ''0123456789abcdef'' [0..<16] @ zip ''ABCDEF'' [10..<16]) c"

text \<open>The code unit of four hexadecimal digits.\<close>

definition hexUnit :: "string \<Rightarrow> unit16 option" where
  "hexUnit ds =
     (case map hexValue ds of
        [Some a, Some b, Some c, Some d] \<Rightarrow>
          Some (char_of (16 * a + b), char_of (16 * c + d))
      | _ \<Rightarrow> None)"

definition validExponent :: "string \<Rightarrow> bool" where
  "validExponent r =
     (case r of
        [] \<Rightarrow> True
      | e # r1 \<Rightarrow>
          (e = CHR ''e'' \<or> e = CHR ''E'') \<and>
          (let r2 = (case r1 of
                       [] \<Rightarrow> []
                     | g # t \<Rightarrow> if g = CHR ''+'' \<or> g = CHR ''-'' then t else r1)
           in r2 \<noteq> [] \<and> list_all isDigit r2))"

definition validFraction :: "string \<Rightarrow> bool" where
  "validFraction r =
     (case r of
        [] \<Rightarrow> True
      | p # r1 \<Rightarrow>
          (if p = CHR ''.'' then
             (case r1 of [] \<Rightarrow> False
              | d # t \<Rightarrow> isDigit d \<and> validExponent (dropWhile isDigit r1))
           else validExponent r))"

text \<open>The grammar of a JSON number: \<open>-?(0|[1-9][0-9]*)(\.[0-9]+)?([eE][+-]?[0-9]+)?\<close>.\<close>

definition validNumber :: "string \<Rightarrow> bool" where
  "validNumber s =
     (let s1 = (case s of [] \<Rightarrow> [] | m # t \<Rightarrow> if m = CHR ''-'' then t else s)
      in case s1 of
           [] \<Rightarrow> False
         | d # r \<Rightarrow>
             (if d = CHR ''0'' then validFraction r
              else isDigit d \<and> validFraction (dropWhile isDigit r)))"

definition isNumberChar :: "char \<Rightarrow> bool" where
  "isNumberChar c = (c \<in> set ''0123456789+-.eE'')"

text \<open>One character read between tokens: the next mode and the tokens it completes.\<close>

definition startStep :: "char \<Rightarrow> (lexmode \<times> token list) option" where
  "startStep c =
     (if isJsonSpace c then Some (LStart, [])
      else if c = CHR ''{'' then Some (LStart, [TLBrace])
      else if c = CHR ''}'' then Some (LStart, [TRBrace])
      else if c = CHR ''['' then Some (LStart, [TLBracket])
      else if c = CHR '']'' then Some (LStart, [TRBracket])
      else if c = CHR '':'' then Some (LStart, [TColon])
      else if c = CHR '','' then Some (LStart, [TComma])
      else if c = CHR 0x22 then Some (LString [], [])
      else if c = CHR ''-'' \<or> isDigit c then Some (LNumber [c], [])
      else if c = CHR ''t'' then Some (LWord ''rue'' TTrue, [])
      else if c = CHR ''f'' then Some (LWord ''alse'' TFalse, [])
      else if c = CHR ''n'' then Some (LWord ''ull'' TNull, [])
      else None)"

definition escapeStep :: "unit16 list \<Rightarrow> char \<Rightarrow> (lexmode \<times> token list) option" where
  "escapeStep acc c =
     (if c = CHR 0x22 \<or> c = CHR 0x5C \<or> c = CHR ''/''
      then Some (LString (narrowChar c # acc), [])
      else if c = CHR ''b'' then Some (LString (narrowChar (CHR 0x08) # acc), [])
      else if c = CHR ''f'' then Some (LString (narrowChar (CHR 0x0C) # acc), [])
      else if c = CHR ''n'' then Some (LString (narrowChar (CHR 0x0A) # acc), [])
      else if c = CHR ''r'' then Some (LString (narrowChar (CHR 0x0D) # acc), [])
      else if c = CHR ''t'' then Some (LString (narrowChar (CHR 0x09) # acc), [])
      else if c = CHR ''u'' then Some (LHex acc [], [])
      else None)"

text \<open>A token that a character ends (a number, a literal name) is followed by the step
  of that character between tokens.\<close>

definition thenStart :: "token \<Rightarrow> char \<Rightarrow> (lexmode \<times> token list) option" where
  "thenStart t c = map_option (\<lambda>(m, ts). (m, t # ts)) (startStep c)"

fun lexStep :: "lexmode \<Rightarrow> char \<Rightarrow> (lexmode \<times> token list) option" where
  "lexStep LStart c = startStep c"
| "lexStep (LString acc) c =
     (if c = CHR 0x22 then Some (LStart, [TString (rev acc)])
      else if c = CHR 0x5C then Some (LEscape acc, [])
      else if isControl c then None
      else Some (LString (narrowChar c # acc), []))"
| "lexStep (LEscape acc) c = escapeStep acc c"
| "lexStep (LHex acc ds) c =
     (if length ds < 3 then Some (LHex acc (ds @ [c]), [])
      else map_option (\<lambda>u. (LString (u # acc), [])) (hexUnit (ds @ [c])))"
| "lexStep (LNumber acc) c =
     (if isNumberChar c then Some (LNumber (c # acc), [])
      else if validNumber (rev acc) then thenStart (TNumber (rev acc)) c
      else None)"
| "lexStep (LWord w t) c =
     (case w of
        [] \<Rightarrow> thenStart t c
      | x # w1 \<Rightarrow> if c = x then Some (LWord w1 t, []) else None)"

fun lexEnd :: "lexmode \<Rightarrow> token list option" where
  "lexEnd LStart = Some []"
| "lexEnd (LNumber acc) = (if validNumber (rev acc) then Some [TNumber (rev acc)] else None)"
| "lexEnd (LWord w t) = (if w = [] then Some [t] else None)"
| "lexEnd m = None"

fun lexer :: "lexmode \<Rightarrow> string \<Rightarrow> token list option" where
  "lexer m [] = lexEnd m"
| "lexer m (c # cs) =
     (case lexStep m c of
        None \<Rightarrow> None
      | Some (m1, ts) \<Rightarrow> map_option (\<lambda>r. ts @ r) (lexer m1 cs))"

text \<open>The parser: what is open (arrays with their elements so far, objects with their
  members so far and the pending key) and what may come next.\<close>

datatype frame = FArray "json list" | FObject "(unit16 list \<times> json) list" "unit16 list"

datatype pstate =
    PValue "frame list"
  | PFirstElement "frame list"
  | PFirstKey "frame list"
  | PKey "frame list" "(unit16 list \<times> json) list"
  | PColon "frame list" "(unit16 list \<times> json) list" "unit16 list"
  | PAfter "frame list" json

fun valueStep :: "frame list \<Rightarrow> token \<Rightarrow> pstate option" where
  "valueStep st (TString s) = Some (PAfter st (JString s))"
| "valueStep st (TNumber n) = Some (PAfter st (JNumber n))"
| "valueStep st TTrue = Some (PAfter st (JBool True))"
| "valueStep st TFalse = Some (PAfter st (JBool False))"
| "valueStep st TNull = Some (PAfter st JNull)"
| "valueStep st TLBracket = Some (PFirstElement st)"
| "valueStep st TLBrace = Some (PFirstKey st)"
| "valueStep st t = None"

fun afterStep :: "frame list \<Rightarrow> json \<Rightarrow> token \<Rightarrow> pstate option" where
  "afterStep [] v t = None"
| "afterStep (FArray xs # st) v t =
     (if t = TComma then Some (PValue (FArray (xs @ [v]) # st))
      else if t = TRBracket then Some (PAfter st (JArray (xs @ [v])))
      else None)"
| "afterStep (FObject kvs k # st) v t =
     (if t = TComma then Some (PKey st (kvs @ [(k, v)]))
      else if t = TRBrace then Some (PAfter st (JObject (kvs @ [(k, v)])))
      else None)"

fun pstep :: "pstate \<Rightarrow> token \<Rightarrow> pstate option" where
  "pstep (PValue st) t = valueStep st t"
| "pstep (PFirstElement st) t =
     (if t = TRBracket then Some (PAfter st (JArray [])) else valueStep (FArray [] # st) t)"
| "pstep (PFirstKey st) t =
     (if t = TRBrace then Some (PAfter st (JObject []))
      else (case t of TString k \<Rightarrow> Some (PColon st [] k) | _ \<Rightarrow> None))"
| "pstep (PKey st kvs) t = (case t of TString k \<Rightarrow> Some (PColon st kvs k) | _ \<Rightarrow> None)"
| "pstep (PColon st kvs k) t = (if t = TColon then Some (PValue (FObject kvs k # st)) else None)"
| "pstep (PAfter st v) t = afterStep st v t"

fun prun :: "pstate \<Rightarrow> token list \<Rightarrow> json option" where
  "prun p [] = (case p of PAfter [] v \<Rightarrow> Some v | _ \<Rightarrow> None)"
| "prun p (t # ts) = (case pstep p t of None \<Rightarrow> None | Some p1 \<Rightarrow> prun p1 ts)"

definition JSON_parse :: "string \<Rightarrow> json option" where
  "JSON_parse s = (case lexer LStart s of None \<Rightarrow> None | Some ts \<Rightarrow> prun (PValue []) ts)"

text \<open>Reading a property of a parsed value that is not \<open>null\<close>: only an object has
  properties named \<open>text\<close> or \<open>consequence\<close>; of a repeated key the last one counts.\<close>

fun property :: "unit16 list \<Rightarrow> json \<Rightarrow> json option" where
  "property k (JObject kvs) = map_of (rev kvs) k"
| "property k v = None"

text \<open>Truthiness. A number is falsy when it is zero, here when its digits before the
  exponent are all zero.\<close>

fun truthy :: "json \<Rightarrow> bool" where
  "truthy JNull = False"
| "truthy (JBool b) = b"
| "truthy (JNumber n) =
     (\<not> list_all (\<lambda>c. c \<notin> set ''123456789'')
          (takeWhile (\<lambda>c. c \<noteq> CHR ''e'' \<and> c \<noteq> CHR ''E'') n))"
| "truthy (JString s) = (s \<noteq> [])"
| "truthy (JArray xs) = True"
| "truthy (JObject kvs) = True"

text \<open>
  The string conversion that a template literal applies. An object converts through its
  \<open>toString\<close>: a parsed object with a key \<open>toString\<close> of its own hides the inherited
  method by a value that cannot be called, the inherited \<open>valueOf\<close> returns the object
  itself (an own \<open>valueOf\<close> cannot be called either), and the conversion throws a
  \<open>TypeError\<close>; any other object gives \<open>[object Object]\<close>. An array joins the
  conversions of its elements with commas, \<open>null\<close> giving the empty text. Two
  conversions give a text that is not represented here and end in \<open>NotRepresented\<close>: a
  string with a code unit above 255, and a number other than an integer of at most 15
  digits.
\<close>

definition narrowText :: "unit16 list \<Rightarrow> error + string" where
  "narrowText w =
     (if list_all (\<lambda>u. fst u = CHR 0x00) w then Inr (map snd w) else Inl NotRepresented)"

definition numberText :: "string \<Rightarrow> error + string" where
  "numberText n =
     (let ds = (case n of [] \<Rightarrow> [] | m # t \<Rightarrow> if m = CHR ''-'' then t else n)
      in if n = ''-0'' then Inr ''0''
         else if validNumber n \<and> list_all isDigit ds \<and> length ds \<le> 15 then Inr n
         else Inl NotRepresented)"

fun templateString :: "json \<Rightarrow> error + string"
  and templateElements :: "json list \<Rightarrow> error + string list" where
  "templateString JNull = Inr ''null''"
| "templateString (JBool b) = Inr (if b then ''true'' else ''false'')"
| "templateString (JNumber n) = numberText n"
| "templateString (JString w) = narrowText w"
| "templateString (JArray xs) =
     (case templateElements xs of Inl e \<Rightarrow> Inl e | Inr ts \<Rightarrow> Inr (joinWith '','' ts))"
| "templateString (JObject kvs) =
     (if narrow ''toString'' \<in> set (map fst kvs) then Inl TypeError
      else Inr ''[object Object]'')"
| "templateElements [] = Inr []"
| "templateElements (x # xs) =
     (case (if x = JNull then Inr [] else templateString x) of
        Inl e \<Rightarrow> Inl e
      | Inr t \<Rightarrow>
          (case templateElements xs of Inl e \<Rightarrow> Inl e | Inr ts \<Rightarrow> Inr (t # ts)))"

section \<open>The data model\<close>

text \<open>Numbers are rationals: no claim depends on the rounding of a double.\<close>

record LightingConfig =
  intensity :: rat
  color :: string
  ambient :: rat
  shadows :: bool

record ParticleConfig =
  particleType :: string
  density :: rat
  speed :: rat

record AtmosphereConfig =
  fog :: bool
  fogDensity :: "rat option"
  fogColor :: "string option"
  particles :: "ParticleConfig option"

text \<open>\<open>Partial<LightingConfig>\<close> and \<open>Partial<AtmosphereConfig>\<close>: every field may be
  absent.\<close>

record LightingChange =
  intensityChange :: "rat option"
  colorChange :: "string option"
  ambientChange :: "rat option"
  shadowsChange :: "bool option"

record AtmosphereChange =
  fogChange :: "bool option"
  fogDensityChange :: "rat option"
  fogColorChange :: "string option"
  particlesChange :: "ParticleConfig option"

record Prop =
  propType :: string
  position :: "rat \<times> rat \<times> rat"
  rotation :: "(rat \<times> rat \<times> rat) option"
  scale :: "(rat \<times> rat \<times> rat) option"

datatype TransitionType = Fade | Slide | Zoom

record AnimationEffect =
  transitionType :: "TransitionType option"
  effectIntensity :: "rat option"
  duration :: "rat option"

record EnvironmentModification =
  lightingChange :: "LightingChange option"
  atmosphereChange :: "AtmosphereChange option"
  addProps :: "Prop list option"
  removeProps :: "string list option"
  animationEffect :: "AnimationEffect option"

record EnvironmentDescription =
  baseEnvironment :: string
  lighting :: LightingConfig
  atmosphere :: AtmosphereConfig
  props :: "Prop list"

text \<open>The fields \<open>text\<close> of a choice and of a segment are \<open>choiceText\<close> and
  \<open>storyText\<close> here. The interface types the text and the consequence of a choice as
  strings, but the structured extraction stores what \<open>JSON.parse\<close> returned, which can be
  any value; so the two fields hold values.\<close>

record Choice =
  choiceText :: json
  consequence :: json
  environmentImpact :: EnvironmentModification

record StoryMetadata =
  mood :: string
  location :: string
  timeOfDay :: string
  weatherConditions :: string

record StorySegment =
  storyText :: string
  environment :: EnvironmentDescription
  choices :: "Choice list"
  metadata :: StoryMetadata

text \<open>The object spread \<open>{...base, ...change}\<close>.\<close>

definition spreadLighting :: "LightingConfig \<Rightarrow> LightingChange option \<Rightarrow> LightingConfig" where
  "spreadLighting base change =
     (case change of
        None \<Rightarrow> base
      | Some ch \<Rightarrow>
          \<lparr> intensity = (case intensityChange ch of Some v \<Rightarrow> v | None \<Rightarrow> intensity base),
            color = (case colorChange ch of Some v \<Rightarrow> v | None \<Rightarrow> color base),
            ambient = (case ambientChange ch of Some v \<Rightarrow> v | None \<Rightarrow> ambient base),
            shadows = (case shadowsChange ch of Some v \<Rightarrow> v | None \<Rightarrow> shadows base) \<rparr>)"

definition spreadAtmosphere ::
  "AtmosphereConfig \<Rightarrow> AtmosphereChange option \<Rightarrow> AtmosphereConfig" where
  "spreadAtmosphere base change =
     (case change of
        None \<Rightarrow> base
      | Some ch \<Rightarrow>
          \<lparr> fog = (case fogChange ch of Some v \<Rightarrow> v | None \<Rightarrow> fog base),
            fogDensity = (case fogDensityChange ch of Some v \<Rightarrow> Some v | None \<Rightarrow> fogDensity base),
            fogColor = (case fogColorChange ch of Some v \<Rightarrow> Some v | None \<Rightarrow> fogColor base),
            particles = (case particlesChange ch of Some v \<Rightarrow> Some v | None \<Rightarrow> particles base) \<rparr>)"

text \<open>The shape of every impact the program writes down: a lighting intensity, a fog
  density and an animation effect.\<close>

definition impact ::
  "rat \<Rightarrow> rat \<Rightarrow> TransitionType option \<Rightarrow> rat \<Rightarrow> rat \<Rightarrow> EnvironmentModification" where
  "impact li fd tt ai du =
     \<lparr> lightingChange = Some \<lparr> intensityChange = Some li, colorChange = None,
                                ambientChange = None, shadowsChange = None \<rparr>,
       atmosphereChange = Some \<lparr> fogChange = None, fogDensityChange = Some fd,
                                  fogColorChange = None, particlesChange = None \<rparr>,
       addProps = None, removeProps = None,
       animationEffect = Some \<lparr> transitionType = tt, effectIntensity = Some ai,
                                 duration = Some du \<rparr> \<rparr>"

text \<open>A choice whose text and consequence are texts of the program.\<close>

definition mkChoice :: "string \<Rightarrow> string \<Rightarrow> EnvironmentModification \<Rightarrow> Choice" where
  "mkChoice t c i =
     \<lparr> choiceText = JString (narrow t), consequence = JString (narrow c),
       environmentImpact = i \<rparr>"

section \<open>The choice extractor\<close>

text \<open>\<open>Math.random\<close>: the values it returns, in the order of the calls.\<close>

type_synonym random = "nat \<Rightarrow> rat"

text \<open>\<open>/\[\s*\{.*?\}\s*\]/gs\<close>\<close>

definition jsonArrayRegex :: regex where
  "jsonArrayRegex =
     [(chr (CHR ''[''), One), (isSpace, Star), (chr (CHR ''{''), One), (dotAll, LazyStar),
      (chr (CHR ''}''), One), (isSpace, Star), (chr (CHR '']''), One)]"

text \<open>The three repairs: \<open>'\<close> to \<open>"\<close>; \<open>(\w+)\s*:\<close> to \<open>"$1":\<close>;
  \<open>:\s*"?([^",\}\]]+)"?([,\}\]])\<close> to \<open>:"$1"$2\<close>.\<close>

definition repairJson :: "string \<Rightarrow> string" where
  "repairJson m =
     replaceAll
       [(chr (CHR '':''), One), (isSpace, Star), (chr (CHR 0x22), Opt),
        (noneOf [CHR 0x22, CHR '','', CHR ''}'', CHR '']''], Plus), (chr (CHR 0x22), Opt),
        (oneOf [CHR '','', CHR ''}'', CHR '']''], One)]
       (\<lambda>ps. [CHR '':'', CHR 0x22] @ piece 3 ps @ [CHR 0x22] @ piece 5 ps)
       (replaceAll [(isWord, Plus), (isSpace, Star), (chr (CHR '':''), One)]
          (\<lambda>ps. [CHR 0x22] @ piece 0 ps @ [CHR 0x22, CHR '':''])
          (replaceAll [(chr (CHR 0x27), One)] (\<lambda>ps. [CHR 0x22]) m))"

definition animationTypes :: "TransitionType list" where
  "animationTypes = [Fade, Slide, Zoom]"

text \<open>\<open>c.text || "Continue"\<close> and \<open>c.consequence || "..."\<close>.\<close>

definition propertyOr :: "string \<Rightarrow> string \<Rightarrow> json \<Rightarrow> json" where
  "propertyOr k d c =
     (case property (narrow k) c of
        Some v \<Rightarrow> if truthy v then v else JString (narrow d)
      | None \<Rightarrow> JString (narrow d))"

text \<open>The callback of \<open>parsed.map\<close>: reading a property of \<open>null\<close> throws. Element
  \<open>index\<close> draws four random numbers.\<close>

definition choiceOfParsed :: "random \<Rightarrow> nat \<Rightarrow> json \<Rightarrow> error + Choice" where
  "choiceOfParsed rnd index c =
     (if c = JNull then Inl TypeError
      else Inr \<lparr> choiceText = propertyOr ''text'' ''Continue'' c,
                 consequence = propertyOr ''consequence'' ''You continue your journey'' c,
                 environmentImpact =
                   impact (if index = 0 then 0.8 else 1.2)
                     (rnd (4 * index) * 0.1)
                     (let i = \<lfloor>rnd (4 * index + 1) * 3\<rfloor>
                      in if 0 \<le> i \<and> i < 3 then Some (animationTypes ! nat i) else None)
                     (1 + rnd (4 * index + 2) * 0.5)
                     (2 + rnd (4 * index + 3) * 1) \<rparr>)"

fun mapChoices :: "random \<Rightarrow> nat \<Rightarrow> json list \<Rightarrow> error + Choice list" where
  "mapChoices rnd index [] = Inr []"
| "mapChoices rnd index (c # cs) =
     (case choiceOfParsed rnd index c of
        Inl e \<Rightarrow> Inl e
      | Inr ch \<Rightarrow>
          (case mapChoices rnd (Suc index) cs of
             Inl e \<Rightarrow> Inl e
           | Inr chs \<Rightarrow> Inr (ch # chs)))"

text \<open>Approach 1. \<open>Inl\<close>: an exception reached the inner \<open>catch\<close>; \<open>Inr None\<close>: the
  block ended without \<open>return\<close>; \<open>Inr (Some cs)\<close>: it returned \<open>cs\<close>.\<close>

definition approach1 :: "random \<Rightarrow> string \<Rightarrow> error + Choice list option" where
  "approach1 rnd jsonString =
     (case rsearch jsonArrayRegex jsonString of
        None \<Rightarrow> Inr None
      | Some (pre, ps, rest) \<Rightarrow>
          (if concat ps = [] then Inr None
           else (case JSON_parse (repairJson (concat ps)) of
                   None \<Rightarrow> Inl SyntaxError
                 | Some parsed \<Rightarrow>
                     (case parsed of
                        JArray xs \<Rightarrow>
                          (if 2 \<le> length xs then
                             (case mapChoices rnd 0 xs of
                                Inl e \<Rightarrow> Inl e
                              | Inr cs \<Rightarrow> Inr (Some cs))
                           else Inr None)
                      | _ \<Rightarrow> Inr None))))"

text \<open>\<open>/"?text"?\s*:\s*"([^"]+)"/gi\<close> and \<open>/"?consequence"?\s*:\s*"([^"]+)"/gi\<close>:
  group 1 is the last item but one.\<close>

definition keyRegex :: "string \<Rightarrow> regex" where
  "keyRegex k =
     [(chr (CHR 0x22), Opt)] @ litCI k @
     [(chr (CHR 0x22), Opt), (isSpace, Star), (chr (CHR '':''), One), (isSpace, Star),
      (chr (CHR 0x22), One), (noneOf [CHR 0x22], Plus), (chr (CHR 0x22), One)]"

text \<open>The \<open>exec\<close> loop: \<open>if (match[1]) list.push(match[1].trim())\<close>.\<close>

definition scrape :: "string \<Rightarrow> string \<Rightarrow> string list" where
  "scrape k jsonString =
     map trim (filter (\<lambda>g. g \<noteq> [])
       (map (piece (length k + 6)) (matchAll (keyRegex k) jsonString)))"

definition approach2 :: "string \<Rightarrow> Choice list option" where
  "approach2 jsonString =
     (let texts = scrape ''text'' jsonString;
          consequences = scrape ''consequence'' jsonString
      in if 2 \<le> length texts \<and> 2 \<le> length consequences then
           Some [mkChoice (texts ! 0) (consequences ! 0) (impact 0.8 0.1 (Some Fade) 1.2 2),
                 mkChoice (texts ! 1) (consequences ! 1) (impact 1.2 0.01 (Some Zoom) 1.3 2.5)]
         else None)"

text \<open>Approach 3: \<open>/\d+\.\s*([^\n\.]+)/g\<close>, then \<open>/[\*\-\<bullet>]\s*([^\n\.]+)/g\<close> (the bullet
  character is no code unit below 256); the marker is removed by \<open>/^\d+\.\s*/\<close> and
  \<open>/^[\*\-\<bullet>]\s*/\<close>.\<close>

definition numberedMarker :: regex where
  "numberedMarker = [(isDigit, Plus), (chr (CHR ''.''), One), (isSpace, Star)]"

definition bulletMarker :: regex where
  "bulletMarker = [(oneOf ''*-'', One), (isSpace, Star)]"

definition itemBody :: regex where
  "itemBody = [(noneOf [CHR 0x0A, CHR ''.''], Plus)]"

definition approach3 :: "string \<Rightarrow> Choice list option" where
  "approach3 jsonString =
     (let numberedItems = map concat (matchAll (numberedMarker @ itemBody) jsonString)
      in if 2 \<le> length numberedItems then
           Some [mkChoice (trim (replaceAtStart numberedMarker (\<lambda>ps. []) (numberedItems ! 0)))
                   ''You choose the first option.'' (impact 0.8 0.1 (Some Fade) 1.2 2),
                 mkChoice (trim (replaceAtStart numberedMarker (\<lambda>ps. []) (numberedItems ! 1)))
                   ''You choose the second option.'' (impact 1.2 0.01 (Some Zoom) 1.3 2.5)]
         else
           (let bulletItems = map concat (matchAll (bulletMarker @ itemBody) jsonString)
            in if 2 \<le> length bulletItems then
                 Some [mkChoice (trim (replaceAtStart bulletMarker (\<lambda>ps. []) (bulletItems ! 0)))
                         ''You choose this path.'' (impact 0.8 0.1 (Some Fade) 1.2 2),
                       mkChoice (trim (replaceAtStart bulletMarker (\<lambda>ps. []) (bulletItems ! 1)))
                         ''You choose this direction.'' (impact 1.2 0.01 (Some Zoom) 1.3 2.5)]
               else None))"

definition defaultChoices :: "Choice list" where
  "defaultChoices =
     [mkChoice ''Explore further'' ''You decide to venture deeper into the unknown.''
        (impact 0.8 0.1 (Some Slide) 1.2 2.5),
      mkChoice ''Stay cautious''
        ''You decide to carefully observe your surroundings before proceeding.''
        (impact 1.2 0.01 (Some Fade) 1.1 2)]"

text \<open>The body of the outer \<open>try\<close>: the approaches in order, each inner \<open>catch\<close> going on
  to the next, and the \<open>throw\<close> at the end.\<close>

definition parseChoicesBody :: "random \<Rightarrow> string \<Rightarrow> error + Choice list" where
  "parseChoicesBody rnd choicesText =
     (let jsonString = trim choicesText
      in case approach1 rnd jsonString of
           Inr (Some cs) \<Rightarrow> Inr cs
         | _ \<Rightarrow>
             (case approach2 jsonString of
                Some cs \<Rightarrow> Inr cs
              | None \<Rightarrow>
                  (case approach3 jsonString of
                     Some cs \<Rightarrow> Inr cs
                   | None \<Rightarrow> Inl GenerationError)))"

definition parseChoicesFromText :: "random \<Rightarrow> string \<Rightarrow> error + Choice list" where
  "parseChoicesFromText rnd choicesText =
     (case parseChoicesBody rnd choicesText of
        Inr cs \<Rightarrow> Inr cs
      | Inl e \<Rightarrow> Inr defaultChoices)"

section \<open>The model backend and the session\<close>

text \<open>
  What a completion request can do: fail (the model cannot be loaded, or the call throws),
  or return a list of results, a single result, or some other shape. A result holds its
  \<open>generated_text\<close> when that is a string. The backend samples, so its answer depends
  on the number of the request as well as on the prompt.
\<close>

datatype Outcome =
    Throws | ResultArray "string option list" | ResultSingle "string option" | ResultOther

type_synonym backend = "nat \<Rightarrow> string \<Rightarrow> Outcome"

text \<open>The store: the running summary and the counter, and the number of completions
  requested so far.\<close>

record Session =
  storySummary :: string
  segmentsSincePromptRefresh :: nat
  completions :: nat

definition initialSession :: Session where
  "initialSession = \<lparr> storySummary = [], segmentsSincePromptRefresh = 0, completions = 0 \<rparr>"

definition updateStorySummary :: "string \<Rightarrow> Session \<Rightarrow> Session" where
  "updateStorySummary newSummary s = s\<lparr> storySummary := newSummary \<rparr>"

definition incrementSegmentCount :: "Session \<Rightarrow> Session" where
  "incrementSegmentCount s =
     s\<lparr> segmentsSincePromptRefresh := segmentsSincePromptRefresh s + 1 \<rparr>"

definition resetSegmentCount :: "Session \<Rightarrow> Session" where
  "resetSegmentCount s = s\<lparr> segmentsSincePromptRefresh := 0 \<rparr>"

definition REFRESH_PROMPT_AFTER_SEGMENTS :: nat where
  "REFRESH_PROMPT_AFTER_SEGMENTS = 3"

text \<open>\<open>generateText\<close>: the two accepted shapes, the sanitizer, and the rethrown error.\<close>

definition generateText :: "backend \<Rightarrow> string \<Rightarrow> Session \<Rightarrow> (error + string) \<times> Session" where
  "generateText be prompt s =
     (let s1 = s\<lparr> completions := Suc (completions s) \<rparr>
      in case be (completions s) prompt of
           ResultArray (Some generatedText # r) \<Rightarrow>
             (Inr (cleanGeneratedText generatedText prompt), s1)
         | ResultSingle (Some generatedText) \<Rightarrow>
             (Inr (cleanGeneratedText generatedText prompt), s1)
         | _ \<Rightarrow> (Inl GenerationError, s1))"

definition summaryPrompt :: "string \<Rightarrow> string \<Rightarrow> string" where
  \<open>summaryPrompt previousSummary txt =
     ''\<newline>Summarize this story in a single concise paragraph (max 3 sentences):\<newline>\<newline>Previous summary: ''
     @ previousSummary @ ''\<newline>\<newline>New content: '' @ txt
     @ ''\<newline>\<newline>Keep only the most important plot points and character information.\<newline>''\<close>

text \<open>\<open>s.split('.')[0]\<close>\<close>

definition beforeFirstPeriod :: "string \<Rightarrow> string" where
  "beforeFirstPeriod s = takeWhile (\<lambda>c. c \<noteq> CHR ''.'') s"

definition generateSummary :: "backend \<Rightarrow> string \<Rightarrow> string \<Rightarrow> Session \<Rightarrow> string \<times> Session" where
  "generateSummary be txt previousSummary s =
     (case generateText be (summaryPrompt previousSummary txt) s of
        (Inr summary, s1) \<Rightarrow> (trim summary, s1)
      | (Inl e, s1) \<Rightarrow>
          (let simpleSummary =
                 (if previousSummary \<noteq> []
                  then previousSummary @ '' Then, '' @ beforeFirstPeriod txt @ ''.''
                  else beforeFirstPeriod txt @ ''.'')
           in (take 200 simpleSummary, s1)))"

definition buildPrompt :: "string \<Rightarrow> string \<Rightarrow> string \<Rightarrow> string" where
  \<open>buildPrompt summary lastParagraph setting =
     ''\<newline>Genre: Fantasy\<newline>Setting: '' @ setting @ ''\<newline>Story summary: '' @ summary
     @ ''\<newline>\<newline>Last scene:\<newline>'' @ lastParagraph
     @ ''\<newline>\<newline>Write a brief continuation of this fantasy story in 2-3 sentences. Be vivid but concise.\<newline>''\<close>

definition buildFreshPrompt :: "string \<Rightarrow> string \<Rightarrow> string \<Rightarrow> StoryMetadata \<Rightarrow> string" where
  \<open>buildFreshPrompt summary lastParagraph setting md =
     ''\<newline>RESET CONTEXT\<newline>Genre: Fantasy Adventure\<newline>Setting: A '' @ mood md @ '' '' @ setting
     @ '' during '' @ timeOfDay md @ '', '' @ weatherConditions md @ '' conditions\<newline>\<newline>Complete Story Summary: ''
     @ summary @ ''\<newline>\<newline>Most Recent Scene:\<newline>'' @ lastParagraph
     @ ''\<newline>\<newline>Write a fresh, focused continuation of this fantasy story in 2-3 sentences.\<newline>Be vivid but concise. Match the established mood and setting.\<newline>Avoid repeating phrases from the summary.\<newline>''\<close>

definition newSummaryPrompt :: "string \<Rightarrow> string" where
  \<open>newSummaryPrompt summary =
     ''\<newline>Create a fresh, concise summary (3 sentences max) of this fantasy story:\<newline>\<newline>''
     @ summary
     @ ''\<newline>\<newline>Focus only on the most important plot points and character development.\<newline>Capture the essence of the story without using repetitive language.\<newline>''\<close>

text \<open>\<open>refreshStoryPrompt\<close>: on success the fresh summary is stored and the counter
  reset; on failure the summary is returned as it was and the store is left alone.\<close>

definition refreshStoryPrompt :: "backend \<Rightarrow> string \<Rightarrow> Session \<Rightarrow> string \<times> Session" where
  "refreshStoryPrompt be summary s =
     (case generateText be (newSummaryPrompt summary) s of
        (Inr refreshedSummary, s1) \<Rightarrow>
          (refreshedSummary, resetSegmentCount (updateStorySummary refreshedSummary s1))
      | (Inl e, s1) \<Rightarrow> (summary, s1))"

section \<open>Environment presets\<close>

record EnvironmentPreset =
  defaultDescription :: string
  presetLighting :: LightingConfig
  presetAtmosphere :: AtmosphereConfig
  presetMetadata :: StoryMetadata

definition forestPreset :: EnvironmentPreset where
  "forestPreset =
     \<lparr> defaultDescription = ''You find yourself in a mysterious forest clearing. The air is thick with anticipation, and strange sounds echo in the distance.'',
       presetLighting = \<lparr> intensity = 1.2, color = ''#fdf4c4'', ambient = 0.6, shadows = True \<rparr>,
       presetAtmosphere = \<lparr> fog = True, fogDensity = Some 0.02, fogColor = Some ''#d8e8f0'',
                            particles = None \<rparr>,
       presetMetadata = \<lparr> mood = ''mysterious'', location = ''forest'', timeOfDay = ''day'',
                          weatherConditions = ''clear'' \<rparr> \<rparr>"

definition ruinsPreset :: EnvironmentPreset where
  "ruinsPreset =
     \<lparr> defaultDescription = ''Ancient stone structures rise before you, covered in vines and moss. The remnants of a forgotten civilization.'',
       presetLighting = \<lparr> intensity = 1.1, color = ''#e8d8c0'', ambient = 0.5, shadows = True \<rparr>,
       presetAtmosphere = \<lparr> fog = True, fogDensity = Some 0.03, fogColor = Some ''#e0e0d8'',
                            particles = None \<rparr>,
       presetMetadata = \<lparr> mood = ''ancient'', location = ''ruins'', timeOfDay = ''day'',
                          weatherConditions = ''clear'' \<rparr> \<rparr>"

definition cavePreset :: EnvironmentPreset where
  "cavePreset =
     \<lparr> defaultDescription = ''The dark cave opens before you, stalactites hanging from the ceiling. Water drips somewhere in the distance.'',
       presetLighting = \<lparr> intensity = 0.4, color = ''#a0c0e0'', ambient = 0.2, shadows = True \<rparr>,
       presetAtmosphere = \<lparr> fog = True, fogDensity = Some 0.08, fogColor = Some ''#202030'',
                            particles = None \<rparr>,
       presetMetadata = \<lparr> mood = ''mysterious'', location = ''cave'', timeOfDay = ''night'',
                          weatherConditions = ''enclosed'' \<rparr> \<rparr>"

text \<open>\<open>baseEnvironments[key] || baseEnvironments.forest\<close> (only the three keys of the
  table are looked up).\<close>

definition baseEnvironments :: "string \<Rightarrow> EnvironmentPreset" where
  "baseEnvironments key =
     (if key = ''forest'' then forestPreset
      else if key = ''ruins'' then ruinsPreset
      else if key = ''cave'' then cavePreset
      else forestPreset)"

section \<open>The narrative state machine\<close>


definition jsonFormat :: string where
  \<open>jsonFormat =
     ''\<newline>\<newline>RESPOND WITH ONLY THIS JSON FORMAT:\<newline>[{"text":"First choice text","consequence":"First choice result"},{"text":"Second choice text","consequence":"Second choice result"}]\<newline>\<newline>Keep each text and consequence under 10 words.''\<close>


definition nextChoicesPrompt :: "string \<Rightarrow> string" where
  "nextChoicesPrompt generatedText =
     ''Answer with ONLY a JSON array and nothing else. Create two choices based on this situation: ''
     @ [CHR 0x22] @ generatedText @ [CHR 0x22] @ jsonFormat"

definition forestEnvironment :: EnvironmentDescription where
  "forestEnvironment =
     \<lparr> baseEnvironment = ''forest'', lighting = presetLighting forestPreset,
       atmosphere = presetAtmosphere forestPreset, props = [] \<rparr>"


definition initialFallbackSegment :: StorySegment where
  "initialFallbackSegment =
     \<lparr> storyText = defaultDescription forestPreset,
       environment = forestEnvironment,
       choices =
         [mkChoice ''Explore further''
            ''You decide to venture deeper into this mysterious forest.''
            (impact 0.8 0.1 (Some Slide) 1.2 2),
          mkChoice ''Stay cautious''
            ''You decide to carefully observe your surroundings before proceeding.''
            (impact 1.4 0.01 (Some Fade) 1.1 2)],
       metadata = presetMetadata forestPreset \<rparr>"



text \<open>\<open>currentStory.text.split(".").slice(-2).join(".").trim()\<close>\<close>

definition lastParagraphOf :: "string \<Rightarrow> string" where
  "lastParagraphOf t = trim (joinWith ''.'' (sliceLast 2 (splitOn (CHR ''.'') t)))"

definition nextEnvironmentOf :: "string \<Rightarrow> string \<Rightarrow> string" where
  "nextEnvironmentOf current generatedText =
     (let lowerText = toLowerCase generatedText
      in if includesStr lowerText ''cave'' \<or> includesStr lowerText ''cavern''
            \<or> includesStr lowerText ''underground'' then ''cave''
         else if includesStr lowerText ''ruin'' \<or> includesStr lowerText ''ancient''
            \<or> includesStr lowerText ''structure'' then ''ruins''
         else current)"

text \<open>The refresh test reads the counter as it was when the call began.\<close>

definition shouldRefreshPrompt :: "Session \<Rightarrow> bool" where
  "shouldRefreshPrompt s = (REFRESH_PROMPT_AFTER_SEGMENTS \<le> segmentsSincePromptRefresh s)"

definition storyPromptOf :: "bool \<Rightarrow> string \<Rightarrow> StorySegment \<Rightarrow> string" where
  "storyPromptOf refresh workingSummary currentStory =
     (if refresh
      then buildFreshPrompt workingSummary (lastParagraphOf (storyText currentStory))
             (baseEnvironment (environment currentStory)) (metadata currentStory)
      else buildPrompt workingSummary (lastParagraphOf (storyText currentStory))
             (baseEnvironment (environment currentStory)))"

text \<open>The \<open>try\<close> block of \<open>generateNextStorySegment\<close>. The template literal that
  builds \<open>nextText\<close> converts the consequence of the choice and can throw.\<close>

definition nextTry ::
  "backend \<Rightarrow> random \<Rightarrow> StorySegment \<Rightarrow> Choice \<Rightarrow> Session \<Rightarrow> (error + StorySegment) \<times> Session" where
  "nextTry be rnd currentStory choice s =
     (let refresh = shouldRefreshPrompt s;
          (workingSummary, s2) =
             (if refresh then refreshStoryPrompt be (storySummary s) (incrementSegmentCount s)
              else (storySummary s, incrementSegmentCount s))
      in case templateString (consequence choice) of
           Inl e \<Rightarrow> (Inl e, s2)
         | Inr consequenceText \<Rightarrow>
      (let nextText = consequenceText @ '' ''
       in case generateText be (storyPromptOf refresh workingSummary currentStory) s2 of
           (Inl e, s3) \<Rightarrow> (Inl e, s3)
         | (Inr generatedText, s3) \<Rightarrow>
             (let fullNewText = nextText @ generatedText;
                  s4 = (if \<not> refresh
                        then (case generateSummary be fullNewText workingSummary s3 of
                                (updatedSummary, s') \<Rightarrow> updateStorySummary updatedSummary s')
                        else s3);
                  nextEnvironment =
                    nextEnvironmentOf (baseEnvironment (environment currentStory)) generatedText;
                  environmentSettings = baseEnvironments nextEnvironment
              in case generateText be (nextChoicesPrompt generatedText) s4 of
                   (Inl e, s5) \<Rightarrow> (Inl e, s5)
                 | (Inr choicesText, s5) \<Rightarrow>
                     (case parseChoicesFromText rnd choicesText of
                        Inl e \<Rightarrow> (Inl e, s5)
                      | Inr newChoices \<Rightarrow>
                          (Inr \<lparr> storyText = fullNewText,
                                 environment =
                                   \<lparr> baseEnvironment = nextEnvironment,
                                     lighting = spreadLighting
                                       (lighting (environment currentStory))
                                       (lightingChange (environmentImpact choice)),
                                     atmosphere = spreadAtmosphere
                                       (atmosphere (environment currentStory))
                                       (atmosphereChange (environmentImpact choice)),
                                     props = props (environment currentStory) \<rparr>,
                                 choices = newChoices,
                                 metadata = (presetMetadata environmentSettings)
                                   \<lparr> location := nextEnvironment \<rparr> \<rparr>, s5)))))"

text \<open>The \<open>catch\<close> block: a segment from the current segment and the choice alone. Its
  first statement converts the consequence in a template literal again; when that
  throws, nothing catches it.\<close>

definition nextFallbackSegment :: "StorySegment \<Rightarrow> Choice \<Rightarrow> error + StorySegment" where
  "nextFallbackSegment currentStory choice =
     (case templateString (consequence choice) of
        Inl e \<Rightarrow> Inl e
      | Inr consequenceText \<Rightarrow>
          Inr \<lparr> storyText = consequenceText
                  @ '' As you continue your journey, new paths reveal themselves.'',
                environment = (environment currentStory)
                  \<lparr> baseEnvironment := baseEnvironment (environment currentStory),
                    lighting := spreadLighting (lighting (environment currentStory))
                                  (lightingChange (environmentImpact choice)),
                    atmosphere := spreadAtmosphere (atmosphere (environment currentStory))
                                    (atmosphereChange (environmentImpact choice)) \<rparr>,
                choices =
                  [mkChoice ''Explore the area'' ''You take time to explore your surroundings.''
                     (impact 1.1 0.05 (Some Zoom) 1.3 2.5),
                   mkChoice ''Continue on your path'' ''You decide to keep moving forward.''
                     (impact 0.9 0.03 (Some Slide) 1.2 2)],
                metadata = (metadata currentStory)
                  \<lparr> location := baseEnvironment (environment currentStory) \<rparr> \<rparr>)"

text \<open>The result: \<open>Inr\<close> when the promise resolves with a segment, \<open>Inl\<close> when it rejects.\<close>

definition generateNextStorySegment ::
  "backend \<Rightarrow> random \<Rightarrow> StorySegment \<Rightarrow> Choice \<Rightarrow> Session \<Rightarrow> (error + StorySegment) \<times> Session" where
  "generateNextStorySegment be rnd currentStory choice s =
     (case nextTry be rnd currentStory choice s of
        (Inr seg, s1) \<Rightarrow> (Inr seg, s1)
      | (Inl e, s1) \<Rightarrow> (nextFallbackSegment currentStory choice, s1))"


section \<open>The second variant of the state machine\<close>

text \<open>
  The repository holds a second, later version of the generation service. Its
  \<open>generateText\<close> ends in its own sanitizer; here the outcome of that call is given: the
  sanitized text, or \<open>None\<close> when the call throws, for each request number and prompt.
\<close>

type_synonym textgen = "nat \<Rightarrow> string \<Rightarrow> string option"

definition generateText2 :: "textgen \<Rightarrow> string \<Rightarrow> Session \<Rightarrow> (error + string) \<times> Session" where
  "generateText2 gen prompt s =
     (case gen (completions s) prompt of
        Some t \<Rightarrow> (Inr t, s\<lparr> completions := Suc (completions s) \<rparr>)
      | None \<Rightarrow> (Inl GenerationError, s\<lparr> completions := Suc (completions s) \<rparr>))"

text \<open>\<open>s.split(/[\.|\n|;]/)\<close>: a split at every character of a class.\<close>

fun splitWhere :: "(char \<Rightarrow> bool) \<Rightarrow> string \<Rightarrow> string list" where
  "splitWhere P [] = [[]]"
| "splitWhere P (x # xs) =
     (if P x then [] # splitWhere P xs
      else (case splitWhere P xs of [] \<Rightarrow> [[x]] | p # ps \<Rightarrow> (x # p) # ps))"

definition choicesPrompt2 :: "string \<Rightarrow> string" where
  \<open>choicesPrompt2 trimmedContext =
     ''Based on this fantasy adventure context: "'' @ trimmedContext
     @ ''" \<newline>\<newline>Generate two distinct, compelling choices for what the protagonist could do next.\<newline>Each choice should:\<newline>1. Be brief (3-7 words)\<newline>2. Offer a clear action\<newline>3. Suggest different approaches/directions\<newline>4. Fit the current story situation\<newline>\<newline>Format each choice on a new line:''\<close>

definition goodLine :: "string \<Rightarrow> bool" where
  "goodLine line =
     ((3 < length line \<and> length line < 50)
      \<and> list_all (noneOf [CHR '':'', CHR ''|'', CHR 0x22]) line
      \<and> (case line of [] \<Rightarrow> True | c # r \<Rightarrow> noneOf ''0123456789-*'' c))"

text \<open>\<open>line.toLowerCase().replace(/\.$/, '')\<close>\<close>

definition decideTo :: "string \<Rightarrow> string" where
  "decideTo line =
     (let l = toLowerCase line
      in ''You decide to '' @ (if endsWith l ''.'' then butlast l else l) @ ''.'')"

definition generateChoices2 ::
  "textgen \<Rightarrow> random \<Rightarrow> string \<Rightarrow> Session \<Rightarrow> Choice list \<times> Session" where
  "generateChoices2 gen rnd context s =
     (case generateText2 gen (choicesPrompt2 (sliceLast 200 context)) s of
        (Inl e, s1) \<Rightarrow>
          ([mkChoice ''Explore the unknown''
              ''You venture deeper into the mysterious surroundings.''
              (impact 0.8 0.1 (Some Slide) 1.2 2.5),
            mkChoice ''Proceed with caution''
              ''You move forward carefully, alert to the dangers around you.''
              (impact 1.2 0.01 (Some Fade) 1.1 2)], s1)
      | (Inr choicesText, s1) \<Rightarrow>
          (let lines = filter goodLine
                 (map trim (splitWhere (oneOf [CHR ''.'', CHR ''|'', CHR 0x0A, CHR '';''])
                    choicesText))
           in if 2 \<le> length lines then
                ([mkChoice (lines ! 0) (decideTo (lines ! 0))
                    (impact 0.8 0.1 (Some Fade) 1.2 2),
                  mkChoice (lines ! 1) (decideTo (lines ! 1))
                    (impact 1.2 0.01 (Some (if 0.5 < rnd 0 then Zoom else Slide)) 1.3 2.5)],
                 s1)
              else
                ([mkChoice ''Investigate further''
                    ''You decide to investigate further into the mystery.''
                    (impact 0.8 0.1 (Some Fade) 1.2 2),
                  mkChoice ''Take an alternative path''
                    ''You choose a different direction, seeking a new opportunity.''
                    (impact 1.2 0.01 (Some Slide) 1.3 2.5)], s1)))"

definition environments :: "string \<Rightarrow> EnvironmentPreset" where
  "environments key =
     (if key = ''cave''
      then cavePreset\<lparr> defaultDescription :=
             ''A dark cave with stalactites hanging from the ceiling.'' \<rparr>
      else if key = ''ruins''
      then ruinsPreset\<lparr> defaultDescription := ''Ancient ruins of a forgotten civilization.'' \<rparr>
      else forestPreset\<lparr> defaultDescription :=
             ''A mysterious forest with ancient trees reaching toward the sky.'' \<rparr>)"

definition getEnvironment :: "string \<Rightarrow> string" where
  "getEnvironment t =
     (let lowerText = toLowerCase t
      in if includesStr lowerText ''cave'' \<or> includesStr lowerText ''underground''
            \<or> includesStr lowerText ''dark'' then ''cave''
         else if includesStr lowerText ''ruin'' \<or> includesStr lowerText ''ancient''
            \<or> includesStr lowerText ''temple'' then ''ruins''
         else ''forest'')"

definition refreshPrompt2 :: "StorySegment \<Rightarrow> string \<Rightarrow> string \<Rightarrow> string" where
  \<open>refreshPrompt2 currentStory summary consequenceText =
     ''Fantasy adventure setting: '' @ baseEnvironment (environment currentStory)
     @ ''\<newline>      \<newline>Previous events: '' @ summary
     @ ''\<newline>\<newline>Current situation: '' @ consequenceText
     @ ''\<newline>\<newline>Continue the adventure by describing what happens next. Use vivid details and second-person perspective.\<newline>Write 2-3 sentences that advance the story in an interesting way:''\<close>

definition standardPrompt2 :: "string \<Rightarrow> string \<Rightarrow> string \<Rightarrow> string" where
  \<open>standardPrompt2 summary choiceTextText consequenceText =
     ''Fantasy adventure in progress:\<newline>      \<newline>Story so far: "'' @ sliceLast 300 summary
     @ ''"\<newline>\<newline>The protagonist just chose to: '' @ choiceTextText
     @ ''\<newline>This leads to: '' @ consequenceText
     @ ''\<newline>\<newline>Continue the story with 2-3 vivid sentences that advance the plot. \<newline>Use second-person perspective (you) and include sensory details:''\<close>

text \<open>The prompt of the turn and the session after it is built. The template literals
  convert the text and the consequence of the choice and can throw; on a refresh turn
  the counter is reset after the prompt is built.\<close>

definition promptOf2 ::
  "StorySegment \<Rightarrow> Choice \<Rightarrow> Session \<Rightarrow> error + (string \<times> Session)" where
  "promptOf2 currentStory choice s =
     (if shouldRefreshPrompt s then
        (case templateString (consequence choice) of
           Inl e \<Rightarrow> Inl e
         | Inr c \<Rightarrow>
             Inr (refreshPrompt2 currentStory (storySummary s) c,
                  resetSegmentCount (incrementSegmentCount s)))
      else
        (case templateString (choiceText choice) of
           Inl e \<Rightarrow> Inl e
         | Inr t \<Rightarrow>
             (case templateString (consequence choice) of
                Inl e \<Rightarrow> Inl e
              | Inr c \<Rightarrow>
                  Inr (standardPrompt2 (storySummary s) t c, incrementSegmentCount s))))"

text \<open>The join of the consequence and the generated continuation. \<open>startsWith\<close> converts
  its argument to a string; \<open>endsWith\<close> is a method of strings only, so calling it on any
  other value throws.\<close>

definition joinConsequence :: "json \<Rightarrow> string \<Rightarrow> error + string" where
  "joinConsequence c generatedText =
     (case templateString c of
        Inl e \<Rightarrow> Inl e
      | Inr consequenceText \<Rightarrow>
          (if \<not> startsWith generatedText consequenceText then
             (case c of
                JString w \<Rightarrow>
                  Inr (consequenceText
                       @ (if \<not> endsWith consequenceText ''.''
                             \<and> \<not> endsWith consequenceText ''!''
                             \<and> \<not> endsWith consequenceText ''?''
                          then ''. '' else '' '')
                       @ generatedText)
              | _ \<Rightarrow> Inl TypeError)
           else Inr generatedText))"

definition maxSummaryLength :: nat where
  "maxSummaryLength = 1000"

definition nextTry2 ::
  "textgen \<Rightarrow> random \<Rightarrow> StorySegment \<Rightarrow> Choice \<Rightarrow> Session \<Rightarrow> (error + StorySegment) \<times> Session" where
  "nextTry2 gen rnd currentStory choice s =
     (case promptOf2 currentStory choice s of
        Inl e \<Rightarrow> (Inl e, incrementSegmentCount s)
      | Inr (prompt, s2) \<Rightarrow>
          (case generateText2 gen prompt s2 of
             (Inl e, s3) \<Rightarrow> (Inl e, s3)
           | (Inr generatedText, s3) \<Rightarrow>
               (case joinConsequence (consequence choice) generatedText of
                  Inl e \<Rightarrow> (Inl e, s3)
                | Inr fullText \<Rightarrow>
                    (let newSummary =
                           sliceLast maxSummaryLength (storySummary s @ '' '' @ fullText);
                         s4 = updateStorySummary newSummary s3;
                         envType = getEnvironment fullText;
                         env = environments envType
                     in case generateChoices2 gen rnd fullText s4 of
                          (cs, s5) \<Rightarrow>
                            (Inr \<lparr> storyText = fullText,
                                   environment =
                                     \<lparr> baseEnvironment = envType,
                                       lighting = spreadLighting (presetLighting env)
                                         (lightingChange (environmentImpact choice)),
                                       atmosphere = spreadAtmosphere (presetAtmosphere env)
                                         (atmosphereChange (environmentImpact choice)),
                                       props = props (environment currentStory) \<rparr>,
                                   choices = cs,
                                   metadata = (presetMetadata env)\<lparr> location := envType \<rparr> \<rparr>,
                             s5)))))"





section \<open>Characters the sanitizer leaves alone\<close>

text \<open>A plain character: no white space, no terminal punctuation, no colon, no opening
  bracket. A text of plain characters is one token that the sanitizer has nothing to do
  with.\<close>

definition plainChar :: "char \<Rightarrow> bool" where
  "plainChar c = (\<not> isSpace c \<and> \<not> isTerminal c \<and> c \<noteq> CHR '':'' \<and> c \<noteq> CHR ''['')"

section \<open>Concrete inputs\<close>

text \<open>A backend that always fails, one that answers the first request and fails
  afterwards, one whose every answer is the word \<open>ruin\<close>, one whose every answer is
  1001 letters; a text generation of the second variant that always answers \<open>ok\<close>.\<close>

definition alwaysThrows :: backend where
  "alwaysThrows n p = Throws"

definition answersOnce :: backend where
  "answersOnce n p = (if n = 0 then ResultSingle (Some ''s'') else Throws)"

definition ruinBackend :: backend where
  "ruinBackend n p = ResultSingle (Some ''ruin'')"


definition okGen :: textgen where
  "okGen n p = Some ''ok''"

text \<open>A choice whose consequence has no terminal punctuation, and a choice as the
  structured extraction returns it for the second input below: its consequence is an
  object with a key \<open>toString\<close>.\<close>

definition fleeChoice :: Choice where
  "fleeChoice = mkChoice ''Run'' ''You flee'' (impact 0.8 0.1 (Some Fade) 1.2 2)"


definition dueSession :: Session where
  "dueSession = \<lparr> storySummary = [], segmentsSincePromptRefresh = 3, completions = 0 \<rparr>"

text \<open>The input of the scenario on well-formed JSON, and a completion whose first
  object has an object for its consequence.\<close>

definition wellFormedInput :: string where
  \<open>wellFormedInput =
     ''[{"text":"Run","consequence":"You flee"},{"text":"Fight","consequence":"You attack"}]''\<close>


section \<open>Properties of the choice extractor\<close>

lemma narrowText_narrow: "narrowText (narrow t) = Inr t"
  by (simp add: narrowText_def narrow_def narrowChar_def list_all_iff comp_def)

lemma templateString_narrow: "templateString (JString (narrow t)) = Inr t"
  by (simp add: narrowText_narrow)

lemma mapChoices_length: "mapChoices rnd i xs = Inr cs \<Longrightarrow> length cs = length xs"
  by (induction xs arbitrary: i cs) (auto split: sum.splits)

lemma choiceOfParsed_intensity:
  "choiceOfParsed rnd i c = Inr ch \<Longrightarrow>
     lightingChange (environmentImpact ch) =
       Some \<lparr> intensityChange = Some (if i = 0 then 0.8 else 1.2), colorChange = None,
              ambientChange = None, shadowsChange = None \<rparr>"
  by (auto simp: choiceOfParsed_def impact_def split: if_splits)

lemma mapChoices_first_two:
  assumes "mapChoices rnd 0 xs = Inr cs" "2 \<le> length xs"
  shows "2 \<le> length cs
     \<and> lightingChange (environmentImpact (cs ! 0)) =
         Some \<lparr> intensityChange = Some 0.8, colorChange = None,
                ambientChange = None, shadowsChange = None \<rparr>
     \<and> lightingChange (environmentImpact (cs ! 1)) =
         Some \<lparr> intensityChange = Some 1.2, colorChange = None,
                ambientChange = None, shadowsChange = None \<rparr>"
proof -
  obtain a b r where xs: "xs = a # b # r"
    using assms(2) by (cases xs; cases "tl xs") auto
  from assms(1) xs obtain ca cb cr where
    cs: "cs = ca # cb # cr" and a: "choiceOfParsed rnd 0 a = Inr ca"
    and b: "choiceOfParsed rnd (Suc 0) b = Inr cb"
    by (auto split: sum.splits)
  show ?thesis
    using choiceOfParsed_intensity[OF a] choiceOfParsed_intensity[OF b] cs by simp
qed

lemma approach1_two:
  "approach1 rnd s = Inr (Some cs) \<Longrightarrow>
     2 \<le> length cs
     \<and> lightingChange (environmentImpact (cs ! 0)) =
         Some \<lparr> intensityChange = Some 0.8, colorChange = None,
                ambientChange = None, shadowsChange = None \<rparr>
     \<and> lightingChange (environmentImpact (cs ! 1)) =
         Some \<lparr> intensityChange = Some 1.2, colorChange = None,
                ambientChange = None, shadowsChange = None \<rparr>"
  by (auto simp: approach1_def split: option.splits if_splits json.splits sum.splits prod.splits
      dest: mapChoices_first_two)

lemma approach2_two:
  "approach2 s = Some cs \<Longrightarrow>
     2 \<le> length cs
     \<and> lightingChange (environmentImpact (cs ! 0)) =
         Some \<lparr> intensityChange = Some 0.8, colorChange = None,
                ambientChange = None, shadowsChange = None \<rparr>
     \<and> lightingChange (environmentImpact (cs ! 1)) =
         Some \<lparr> intensityChange = Some 1.2, colorChange = None,
                ambientChange = None, shadowsChange = None \<rparr>"
  by (auto simp: approach2_def Let_def mkChoice_def impact_def split: if_splits)

lemma approach3_two:
  "approach3 s = Some cs \<Longrightarrow>
     2 \<le> length cs
     \<and> lightingChange (environmentImpact (cs ! 0)) =
         Some \<lparr> intensityChange = Some 0.8, colorChange = None,
                ambientChange = None, shadowsChange = None \<rparr>
     \<and> lightingChange (environmentImpact (cs ! 1)) =
         Some \<lparr> intensityChange = Some 1.2, colorChange = None,
                ambientChange = None, shadowsChange = None \<rparr>"
  by (auto simp: approach3_def Let_def mkChoice_def impact_def split: if_splits)

lemma defaultChoices_two:
  "2 \<le> length defaultChoices
     \<and> lightingChange (environmentImpact (defaultChoices ! 0)) =
         Some \<lparr> intensityChange = Some 0.8, colorChange = None,
                ambientChange = None, shadowsChange = None \<rparr>
     \<and> lightingChange (environmentImpact (defaultChoices ! 1)) =
         Some \<lparr> intensityChange = Some 1.2, colorChange = None,
                ambientChange = None, shadowsChange = None \<rparr>"
  by (simp add: defaultChoices_def mkChoice_def impact_def)

lemma parseChoices_two:
  "\<exists>cs. parseChoicesFromText rnd s = Inr cs \<and> 2 \<le> length cs
     \<and> lightingChange (environmentImpact (cs ! 0)) =
         Some \<lparr> intensityChange = Some 0.8, colorChange = None,
                ambientChange = None, shadowsChange = None \<rparr>
     \<and> lightingChange (environmentImpact (cs ! 1)) =
         Some \<lparr> intensityChange = Some 1.2, colorChange = None,
                ambientChange = None, shadowsChange = None \<rparr>"
proof (cases "parseChoicesBody rnd s")
  case (Inl e)
  then show ?thesis using defaultChoices_two by (simp add: parseChoicesFromText_def)
next
  case (Inr cs)
  then have "2 \<le> length cs
     \<and> lightingChange (environmentImpact (cs ! 0)) =
         Some \<lparr> intensityChange = Some 0.8, colorChange = None,
                ambientChange = None, shadowsChange = None \<rparr>
     \<and> lightingChange (environmentImpact (cs ! 1)) =
         Some \<lparr> intensityChange = Some 1.2, colorChange = None,
                ambientChange = None, shadowsChange = None \<rparr>"
    using approach1_two[of rnd "trim s" cs] approach2_two[of "trim s" cs]
      approach3_two[of "trim s" cs] defaultChoices_two
    by (auto simp: parseChoicesBody_def Let_def split: sum.splits option.splits)
  with Inr show ?thesis by (simp add: parseChoicesFromText_def)
qed

text \<open>
  Claim C1, as the code has it. For every raw text and every run of the random numbers the
  extractor returns (it does not throw), it returns at least two choices, the lighting
  change of the first choice is an intensity of 0.8 and nothing else, that of the second
  an intensity of 1.2 and nothing else, and so the environment impacts of the first two
  choices differ.
\<close>

theorem extract_returns_at_least_two:
  "\<exists>cs. parseChoicesFromText rnd s = Inr cs \<and> 2 \<le> length cs
     \<and> lightingChange (environmentImpact (cs ! 0)) =
         Some \<lparr> intensityChange = Some 0.8, colorChange = None,
                ambientChange = None, shadowsChange = None \<rparr>
     \<and> lightingChange (environmentImpact (cs ! 1)) =
         Some \<lparr> intensityChange = Some 1.2, colorChange = None,
                ambientChange = None, shadowsChange = None \<rparr>
     \<and> environmentImpact (cs ! 0) \<noteq> environmentImpact (cs ! 1)"
proof -
  obtain cs where cs: "parseChoicesFromText rnd s = Inr cs" "2 \<le> length cs"
    and a: "lightingChange (environmentImpact (cs ! 0)) =
         Some \<lparr> intensityChange = Some 0.8, colorChange = None,
                ambientChange = None, shadowsChange = None \<rparr>"
    and b: "lightingChange (environmentImpact (cs ! 1)) =
         Some \<lparr> intensityChange = Some 1.2, colorChange = None,
                ambientChange = None, shadowsChange = None \<rparr>"
    using parseChoices_two[of rnd s] by blast
  have "lightingChange (environmentImpact (cs ! 0)) \<noteq> lightingChange (environmentImpact (cs ! 1))"
    unfolding a b by simp
  then have "environmentImpact (cs ! 0) \<noteq> environmentImpact (cs ! 1)" by auto
  with cs a b show ?thesis by blast
qed

text \<open>
  Claim C1 as stated fails three times. On \<open>[{a:1},{b:2},{c:3}]\<close> the structured
  extraction repairs the text to an array of three objects and returns three choices. The
  key scraping tests the captured text before it trims it: on
  \<open>text:" " text:" " consequence:"a" consequence:"b"\<close> it returns two choices whose
  text is empty, and on \<open>text:"a" text:"b" consequence:" " consequence:" "\<close> two
  choices whose consequence is empty.
\<close>

theorem extract_exactly_two_nonempty_counterexample:
  \<open>(case parseChoicesFromText (\<lambda>n. 0) ''[{a:1},{b:2},{c:3}]'' of
      Inr cs \<Rightarrow> length cs | Inl e \<Rightarrow> 0) = 3
   \<and> (case parseChoicesFromText (\<lambda>n. 0)
            ''text:" " text:" " consequence:"a" consequence:"b"'' of
        Inr cs \<Rightarrow> map choiceText cs | Inl e \<Rightarrow> []) = [JString [], JString []]
   \<and> (case parseChoicesFromText (\<lambda>n. 0)
            ''text:"a" text:"b" consequence:" " consequence:" "'' of
        Inr cs \<Rightarrow> map consequence cs | Inl e \<Rightarrow> []) = [JString [], JString []]\<close>
  by code_simp

lemma wellFormed_texts:
  "(case parseChoicesFromText rnd wellFormedInput of
      Inr cs \<Rightarrow> map choiceText cs | Inl e \<Rightarrow> [])
     = [JString (narrow ''Run''), JString (narrow ''Fight'')]"
  by code_simp

lemma wellFormed_structured:
  "(case approach1 rnd wellFormedInput of
      Inr (Some cs) \<Rightarrow> map choiceText cs | _ \<Rightarrow> [])
     = [JString (narrow ''Run''), JString (narrow ''Fight'')]"
  by code_simp

lemma wellFormed_repair: "repairJson wellFormedInput = wellFormedInput"
  by code_simp

text \<open>
  Claim C9. On the well-formed input the extractor returns the texts \<open>Run\<close> and
  \<open>Fight\<close>, in that order; they come from the structured extraction, whose repairs leave
  the input as it is.
\<close>

theorem extract_well_formed_json:
  "repairJson wellFormedInput = wellFormedInput
   \<and> (\<exists>cs. approach1 rnd wellFormedInput = Inr (Some cs)
            \<and> map choiceText cs = [JString (narrow ''Run''), JString (narrow ''Fight'')])
   \<and> (\<exists>cs. parseChoicesFromText rnd wellFormedInput = Inr cs
            \<and> map choiceText cs = [JString (narrow ''Run''), JString (narrow ''Fight'')])"
proof -
  have a: "\<exists>cs. approach1 rnd wellFormedInput = Inr (Some cs)
             \<and> map choiceText cs = [JString (narrow ''Run''), JString (narrow ''Fight'')]"
    using wellFormed_structured[of rnd]
    by (auto split: sum.splits option.splits)
  have b: "\<exists>cs. parseChoicesFromText rnd wellFormedInput = Inr cs
             \<and> map choiceText cs = [JString (narrow ''Run''), JString (narrow ''Fight'')]"
    using wellFormed_texts[of rnd] by (auto split: sum.splits)
  show ?thesis using a b wellFormed_repair by blast
qed


section \<open>Properties of the state machine\<close>

lemma generateText_session:
  "generateText be p s = (r, s') \<Longrightarrow> s' = s\<lparr> completions := Suc (completions s) \<rparr>"
  by (auto simp: generateText_def Let_def split: Outcome.splits list.splits option.splits)

lemma generateSummary_session:
  "generateSummary be t p s = (u, s') \<Longrightarrow> s' = s\<lparr> completions := Suc (completions s) \<rparr>"
  by (auto simp: generateSummary_def Let_def split: prod.splits sum.splits
      dest: generateText_session)

lemma refreshStoryPrompt_session:
  "refreshStoryPrompt be sm s = (w, s') \<Longrightarrow>
     (case fst (generateText be (newSummaryPrompt sm) s) of
        Inr t \<Rightarrow> w = t \<and> s' = s\<lparr> storySummary := t, segmentsSincePromptRefresh := 0,
                                   completions := Suc (completions s) \<rparr>
      | Inl e \<Rightarrow> w = sm \<and> s' = s\<lparr> completions := Suc (completions s) \<rparr>)"
  by (auto simp: refreshStoryPrompt_def resetSegmentCount_def updateStorySummary_def
      split: prod.splits sum.splits dest: generateText_session)

lemma nextTry_counter:
  "segmentsSincePromptRefresh (snd (nextTry be rnd cur ch s)) =
     (if shouldRefreshPrompt s
      then (case fst (generateText be (newSummaryPrompt (storySummary s))
                        (incrementSegmentCount s)) of
              Inr t \<Rightarrow> 0 | Inl e \<Rightarrow> segmentsSincePromptRefresh s + 1)
      else segmentsSincePromptRefresh s + 1)"
  unfolding nextTry_def Let_def
  by (auto split: prod.splits sum.splits
      simp: updateStorySummary_def incrementSegmentCount_def
      dest!: generateText_session generateSummary_session refreshStoryPrompt_session)

lemma generateNext_session:
  "snd (generateNextStorySegment be rnd cur ch s) = snd (nextTry be rnd cur ch s)"
  by (auto simp: generateNextStorySegment_def split: prod.splits sum.splits)

lemma fallback_converts:
  "templateString (consequence ch) = Inr c \<Longrightarrow>
     \<exists>seg. nextFallbackSegment cur ch = Inr seg
       \<and> storyText seg = c @ '' As you continue your journey, new paths reveal themselves.''"
  by (simp add: nextFallbackSegment_def)


lemma generateNext_fallback:
  "isl (fst (nextTry be rnd cur ch s)) \<Longrightarrow>
     fst (generateNextStorySegment be rnd cur ch s) = nextFallbackSegment cur ch"
  by (auto simp: generateNextStorySegment_def split: prod.splits sum.splits)



lemma generateText_throws:
  "generateText alwaysThrows p s = (Inl GenerationError, s\<lparr> completions := Suc (completions s) \<rparr>)"
  by (simp add: generateText_def alwaysThrows_def)

lemma nextTry_throws: "isl (fst (nextTry alwaysThrows rnd cur ch s))"
  unfolding nextTry_def Let_def
  by (auto simp: generateText_throws refreshStoryPrompt_def split: prod.splits sum.splits)






lemma flee_converts: "templateString (consequence fleeChoice) = Inr ''You flee''"
  by (simp add: fleeChoice_def mkChoice_def narrowText_narrow)





lemma step_no_refresh:
  "\<not> shouldRefreshPrompt s \<Longrightarrow>
     segmentsSincePromptRefresh (snd (generateNextStorySegment be rnd cur ch s))
       = segmentsSincePromptRefresh s + 1"
  by (simp add: generateNext_session nextTry_counter)

text \<open>
  Claim C3 on the code. From a counter of 0, the counter is 2 when the third call begins,
  below the threshold of 3, so the third call does not refresh and leaves the counter at
  3; the test for the refresh reads the counter from before the increment, and is first
  true when the fourth call begins.
\<close>

theorem third_call_does_not_refresh:
  "(let s1 = snd (generateNextStorySegment be rnd1 cur1 ch1 initialSession);
        s2 = snd (generateNextStorySegment be rnd2 cur2 ch2 s1);
        s3 = snd (generateNextStorySegment be rnd3 cur3 ch3 s2)
    in segmentsSincePromptRefresh s2 = 2 \<and> \<not> shouldRefreshPrompt s2
       \<and> segmentsSincePromptRefresh s3 = 3 \<and> shouldRefreshPrompt s3)"
proof -
  define s1 where "s1 = snd (generateNextStorySegment be rnd1 cur1 ch1 initialSession)"
  define s2 where "s2 = snd (generateNextStorySegment be rnd2 cur2 ch2 s1)"
  define s3 where "s3 = snd (generateNextStorySegment be rnd3 cur3 ch3 s2)"
  have c0: "segmentsSincePromptRefresh initialSession = 0"
    by (simp add: initialSession_def)
  have c1: "segmentsSincePromptRefresh s1 = 1"
    unfolding s1_def using c0
    by (simp add: step_no_refresh shouldRefreshPrompt_def REFRESH_PROMPT_AFTER_SEGMENTS_def)
  have c2: "segmentsSincePromptRefresh s2 = 2"
    unfolding s2_def using c1
    by (simp add: step_no_refresh shouldRefreshPrompt_def REFRESH_PROMPT_AFTER_SEGMENTS_def)
  have c3: "segmentsSincePromptRefresh s3 = 3"
    unfolding s3_def using c2
    by (simp add: step_no_refresh shouldRefreshPrompt_def REFRESH_PROMPT_AFTER_SEGMENTS_def)
  show ?thesis
    using c2 c3 unfolding Let_def s1_def[symmetric] s2_def[symmetric] s3_def[symmetric]
    by (simp add: shouldRefreshPrompt_def REFRESH_PROMPT_AFTER_SEGMENTS_def)
qed

text \<open>
  Claim C10, as the code has it. A call whose \<open>try\<close> block fails returns what the
  \<open>catch\<close> block gives, which is the fallback segment when the consequence of the choice
  converts to a string, and does not roll the counter back: on a turn without refresh the
  counter is one more than before; on a refresh turn it is one more than before when the
  fresh summary could not be generated, and 0 when it could.
\<close>

theorem fallback_keeps_increment:
  "(isl (fst (nextTry be rnd cur ch s)) \<longrightarrow>
      fst (generateNextStorySegment be rnd cur ch s) = nextFallbackSegment cur ch)
   \<and> (templateString (consequence ch) = Inr c \<longrightarrow>
        (\<exists>seg. nextFallbackSegment cur ch = Inr seg
           \<and> storyText seg
               = c @ '' As you continue your journey, new paths reveal themselves.''))
   \<and> (\<not> shouldRefreshPrompt s \<longrightarrow>
        segmentsSincePromptRefresh (snd (generateNextStorySegment be rnd cur ch s))
          = segmentsSincePromptRefresh s + 1)
   \<and> (shouldRefreshPrompt s \<longrightarrow>
        segmentsSincePromptRefresh (snd (generateNextStorySegment be rnd cur ch s))
          = (case fst (generateText be (newSummaryPrompt (storySummary s))
                         (incrementSegmentCount s)) of
               Inr t \<Rightarrow> 0 | Inl e \<Rightarrow> segmentsSincePromptRefresh s + 1))"
  using generateNext_fallback[of be rnd cur ch s] fallback_converts[of ch c cur]
  by (simp add: generateNext_session nextTry_counter)

text \<open>
  The hypotheses of C10 hold: a failing call on a fresh session returns the fallback
  segment and ends with the counter at 1, a failing call on a session that is due for a
  refresh ends with the counter at 4.
\<close>

theorem fallback_keeps_increment_witness:
  "isl (fst (nextTry alwaysThrows (\<lambda>n. 0) initialFallbackSegment fleeChoice initialSession))
   \<and> templateString (consequence fleeChoice) = Inr ''You flee''
   \<and> (\<exists>seg. fst (generateNextStorySegment alwaysThrows (\<lambda>n. 0) initialFallbackSegment
                    fleeChoice initialSession) = Inr seg
          \<and> storyText seg
              = ''You flee As you continue your journey, new paths reveal themselves.'')
   \<and> \<not> shouldRefreshPrompt initialSession
   \<and> shouldRefreshPrompt dueSession
   \<and> segmentsSincePromptRefresh
        (snd (generateNextStorySegment alwaysThrows (\<lambda>n. 0) initialFallbackSegment fleeChoice
           initialSession)) = 1
   \<and> segmentsSincePromptRefresh
        (snd (generateNextStorySegment alwaysThrows (\<lambda>n. 0) initialFallbackSegment fleeChoice
           dueSession)) = 4"
proof -
  note a = fallback_keeps_increment[of alwaysThrows "\<lambda>n. 0" initialFallbackSegment fleeChoice
      initialSession "''You flee''"]
  note b = fallback_keeps_increment[of alwaysThrows "\<lambda>n. 0" initialFallbackSegment fleeChoice
      dueSession "''You flee''"]
  note t = nextTry_throws[of "\<lambda>n. 0" initialFallbackSegment fleeChoice initialSession]
  have n: "\<not> shouldRefreshPrompt initialSession" "shouldRefreshPrompt dueSession"
    by (simp_all add: shouldRefreshPrompt_def REFRESH_PROMPT_AFTER_SEGMENTS_def
        initialSession_def dueSession_def)
  have 1: "\<exists>seg. fst (generateNextStorySegment alwaysThrows (\<lambda>n. 0) initialFallbackSegment
                    fleeChoice initialSession) = Inr seg
          \<and> storyText seg
              = ''You flee As you continue your journey, new paths reveal themselves.''"
    using a t flee_converts by auto
  have 2: "segmentsSincePromptRefresh
        (snd (generateNextStorySegment alwaysThrows (\<lambda>n. 0) initialFallbackSegment fleeChoice
           initialSession)) = 1"
    using a n by (simp add: initialSession_def)
  have 3: "segmentsSincePromptRefresh
        (snd (generateNextStorySegment alwaysThrows (\<lambda>n. 0) initialFallbackSegment fleeChoice
           dueSession)) = 4"
    using b n by (simp add: dueSession_def generateText_throws)
  show ?thesis using t flee_converts 1 2 3 n by blast
qed

text \<open>
  Claim C10 as stated fails on a refresh turn: with the counter at 3, a backend that
  answers the request for the fresh summary and fails afterwards gives the fallback
  segment, and the counter is 0.
\<close>

theorem fallback_after_refresh_counterexample:
  "fst (generateNextStorySegment answersOnce (\<lambda>n. 0) initialFallbackSegment fleeChoice
          dueSession) = nextFallbackSegment initialFallbackSegment fleeChoice
   \<and> \<not> isl (nextFallbackSegment initialFallbackSegment fleeChoice)
   \<and> segmentsSincePromptRefresh dueSession = 3
   \<and> segmentsSincePromptRefresh
        (snd (generateNextStorySegment answersOnce (\<lambda>n. 0) initialFallbackSegment fleeChoice
           dueSession)) = 0"
  by (simp add: generateNextStorySegment_def nextTry_def Let_def shouldRefreshPrompt_def
      REFRESH_PROMPT_AFTER_SEGMENTS_def dueSession_def refreshStoryPrompt_def generateText_def
      answersOnce_def incrementSegmentCount_def resetSegmentCount_def updateStorySummary_def
      flee_converts nextFallbackSegment_def)

section \<open>Properties of the sanitizer\<close>

lemma rtry_None:
  "(\<And>n. n \<in> set ns \<Longrightarrow> rmatch its (drop n s) = None) \<Longrightarrow> rtry its s ns = None"
  by (induction ns) auto





lemma rmatch_dead_first:
  assumes "q = One \<or> q = Plus" "\<And>c. c \<in> S \<Longrightarrow> \<not> cls c" "set t \<subseteq> S"
  shows "rmatch ((cls, q) # its) t = None"
proof -
  have "takeWhile cls t = []" using assms(2,3) by (cases t) auto
  then show ?thesis using assms(1) by auto
qed

lemma rmatch_dead_cons:
  assumes "\<And>t. set t \<subseteq> S \<Longrightarrow> rmatch its t = None" "set t \<subseteq> S"
  shows "rmatch (it # its) t = None"
proof -
  have "\<And>n. rmatch its (drop n t) = None"
    using assms set_drop_subset[of _ t] by (meson subset_trans)
  then show ?thesis by (simp add: rtry_None)
qed

lemma rmatch_dead:
  "\<exists>it \<in> set r. (snd it = One \<or> snd it = Plus) \<and> (\<forall>c \<in> S. \<not> fst it c) \<Longrightarrow>
     set t \<subseteq> S \<Longrightarrow> rmatch r t = None"
proof (induction r arbitrary: t)
  case Nil
  then show ?case by simp
next
  case (Cons it its)
  show ?case
  proof (cases "(snd it = One \<or> snd it = Plus) \<and> (\<forall>c \<in> S. \<not> fst it c)")
    case True
    then show ?thesis
      using rmatch_dead_first[of "snd it" S "fst it" t its] Cons.prems(2) by auto
  next
    case False
    with Cons.prems(1)
    have "\<exists>it \<in> set its. (snd it = One \<or> snd it = Plus) \<and> (\<forall>c \<in> S. \<not> fst it c)" by auto
    then have "\<And>u. set u \<subseteq> S \<Longrightarrow> rmatch its u = None" using Cons.IH by blast
    then show ?thesis using rmatch_dead_cons Cons.prems(2) by blast
  qed
qed

lemma rsearch_dead:
  "(\<And>t. set t \<subseteq> S \<Longrightarrow> rmatch r t = None) \<Longrightarrow> set y \<subseteq> S \<Longrightarrow> rsearch r y = None"
  by (induction y) auto

lemma replaceAll_dead:
  "(\<And>t. set t \<subseteq> S \<Longrightarrow> rmatch r t = None) \<Longrightarrow> set y \<subseteq> S \<Longrightarrow> replaceAll r f y = y"
  by (induction y) auto

lemma matchAll_dead:
  "(\<And>t. set t \<subseteq> S \<Longrightarrow> rmatch r t = None) \<Longrightarrow> set y \<subseteq> S \<Longrightarrow> matchAll r y = []"
  by (induction y) auto


lemma dropWhile_none: "(\<And>c. c \<in> set y \<Longrightarrow> \<not> P c) \<Longrightarrow> dropWhile P y = y"
  by (cases y) auto

lemma trim_plain: "(\<And>c. c \<in> set y \<Longrightarrow> \<not> isSpace c) \<Longrightarrow> trim y = y"
  using dropWhile_none[of y isSpace] dropWhile_none[of "rev y" isSpace]
  by (simp add: trim_def)


lemma indexOf_plain: "CHR ''['' \<notin> set y \<Longrightarrow> indexOf y ''[{'' = None"
  by (induction y) (auto simp: startsWith_def)

lemma lastIndexOf_absent: "c \<notin> set s \<Longrightarrow> lastIndexOf s c = - 1"
proof -
  assume a: "c \<notin> set s"
  have "filter (\<lambda>i. s ! i = c) (rev [0..<length s]) = []"
    using a by (auto simp: filter_empty_conv)
  then show ?thesis by (simp add: lastIndexOf_def)
qed








lemma plain_subset: "list_all plainChar y \<Longrightarrow> set y \<subseteq> Collect plainChar"
  by (auto simp: list_all_iff)

lemma dead_space: "set t \<subseteq> Collect plainChar \<Longrightarrow> rmatch [(isSpace, Plus)] t = None"
  by (rule rmatch_dead_first[where S = "Collect plainChar"]) (auto simp: plainChar_def)

lemma dead_newline:
  "set t \<subseteq> Collect plainChar \<Longrightarrow> rmatch [(chr (CHR 0x0A), Plus)] t = None"
  by (rule rmatch_dead_first[where S = "Collect plainChar"])
     (auto simp: plainChar_def chr_def isSpace_def)

lemma dead_period:
  "set t \<subseteq> Collect plainChar \<Longrightarrow> rmatch [(chr (CHR ''.''), Plus)] t = None"
  by (rule rmatch_dead_first[where S = "Collect plainChar"])
     (auto simp: plainChar_def chr_def isTerminal_def)

lemma dead_punct:
  "set t \<subseteq> Collect plainChar \<Longrightarrow>
     rmatch [(isTerminal, One), (isSpace, Star), (isTerminal, Plus)] t = None"
  by (rule rmatch_dead_first[where S = "Collect plainChar"]) (auto simp: plainChar_def)

lemma dead_sentence:
  "set t \<subseteq> Collect plainChar \<Longrightarrow>
     rmatch [(noneOf ''.!?'', Plus), (oneOf ''.!?'', Plus)] t = None"
  by (rule rmatch_dead[where S = "Collect plainChar"])
     (auto simp: plainChar_def oneOf_def isTerminal_def)

lemma dead_literal:
  assumes "\<not> plainChar x" "otherCase x = x" "set t \<subseteq> Collect plainChar"
  shows "rmatch (litCI (pre @ x # post) @ rest) t = None"
proof (rule rmatch_dead[where S = "Collect plainChar"])
  have "(chrCI x, One) \<in> set (litCI (pre @ x # post) @ rest)"
    by (simp add: litCI_def)
  moreover have "\<forall>c \<in> Collect plainChar. \<not> chrCI x c"
    using assms(1,2) by (auto simp: chrCI_def oneOf_def)
  ultimately show "\<exists>it\<in>set (litCI (pre @ x # post) @ rest).
       (snd it = One \<or> snd it = Plus) \<and> (\<forall>c\<in>Collect plainChar. \<not> fst it c)"
    by force
  show "set t \<subseteq> Collect plainChar" by (rule assms(3))
qed

lemma not_plain_space: "\<not> plainChar (CHR '' '')" "otherCase (CHR '' '') = CHR '' ''"
  by (simp_all add: plainChar_def isSpace_def otherCase_def)

lemma not_plain_colon: "\<not> plainChar (CHR '':'')" "otherCase (CHR '':'') = CHR '':''"
  by (simp_all add: plainChar_def otherCase_def)

lemma dead_patterns:
  assumes "set t \<subseteq> Collect plainChar"
  shows "list_all (\<lambda>r. rmatch r t = None) irrelevantPatterns"
proof -
  have 1: "rmatch (litCI (''The'' @ CHR '' '' # ''protagonist just chose to:'') @ [(dot, Star)]) t = None"
    by (rule dead_literal[OF not_plain_space assms])
  have 2: "rmatch (litCI (''This'' @ CHR '' '' # ''leads to:'') @ [(dot, Star)]) t = None"
    by (rule dead_literal[OF not_plain_space assms])
  have 3: "rmatch (litCI (''Setting'' @ CHR '':'' # []) @ [(dot, Star)]) t = None"
    by (rule dead_literal[OF not_plain_colon assms])
  have 4: "rmatch (litCI (''Describe'' @ CHR '' '' # ''only what happens'') @ [(dot, Star)]) t = None"
    by (rule dead_literal[OF not_plain_space assms])
  have 5: "rmatch (litCI (''Continue'' @ CHR '' '' # ''the story'') @ [(dot, Star)]) t = None"
    by (rule dead_literal[OF not_plain_space assms])
  have 6: "rmatch (litCI (''Be'' @ CHR '' '' # ''vivid but concise'') @ [(dot, Star)]) t = None"
    by (rule dead_literal[OF not_plain_space assms])
  have 7: "rmatch (litCI (''Write'' @ CHR '' '' # ''a brief continuation'') @ [(dot, Star)]) t = None"
    by (rule dead_literal[OF not_plain_space assms])
  have 8: "rmatch (litCI (''The'' @ CHR '' '' # ''story was first published'') @ [(dot, Star)]) t = None"
    by (rule dead_literal[OF not_plain_space assms])
  have 9: "rmatch (litCI (''The'' @ CHR '' '' # ''book was first published'') @ [(dot, Star)]) t = None"
    by (rule dead_literal[OF not_plain_space assms])
  show ?thesis
    using 1 2 3 4 5 6 7 8 9 by (simp add: irrelevantPatterns_def)
qed

lemma replaceFirst_chain:
  "(\<And>t. set t \<subseteq> S \<Longrightarrow> list_all (\<lambda>r. rmatch r t = None) rs) \<Longrightarrow> set y \<subseteq> S \<Longrightarrow>
     foldl (\<lambda>t pattern. replaceFirst pattern f t) y rs = y"
proof (induction rs arbitrary: y)
  case Nil
  then show ?case by simp
next
  case (Cons r rs)
  have "rsearch r y = None"
    by (rule rsearch_dead[where S = S]) (use Cons.prems in auto)
  then have "replaceFirst r f y = y" by (simp add: replaceFirst_def)
  moreover have "foldl (\<lambda>t pattern. replaceFirst pattern f t) y rs = y"
    by (rule Cons.IH) (use Cons.prems in auto)
  ultimately show ?case by simp
qed

lemma stripPatterns_plain: "set y \<subseteq> Collect plainChar \<Longrightarrow> stripPatterns y = y"
  unfolding stripPatterns_def
  by (rule replaceFirst_chain[where S = "Collect plainChar"]) (auto intro: dead_patterns)

lemma cutJson_plain: "set y \<subseteq> Collect plainChar \<Longrightarrow> cutJson y = y"
proof -
  assume a: "set y \<subseteq> Collect plainChar"
  then have "CHR ''['' \<notin> set y" by (auto simp: plainChar_def)
  then show ?thesis by (simp add: cutJson_def indexOf_plain)
qed

lemma dedupe_plain: "set y \<subseteq> Collect plainChar \<Longrightarrow> dedupeSentences y = y"
  using matchAll_dead[where S = "Collect plainChar" and y = y
      and r = "[(noneOf ''.!?'', Plus), (oneOf ''.!?'', Plus)]"] dead_sentence
  by (simp add: dedupeSentences_def sentencesOf_def)

lemma limitLength_plain: "set y \<subseteq> Collect plainChar \<Longrightarrow> limitLength y = y"
proof -
  assume a: "set y \<subseteq> Collect plainChar"
  have "\<And>c. isTerminal c \<Longrightarrow> c \<notin> set (take 300 y)"
    using a by (auto simp: plainChar_def dest: in_set_takeD)
  then have "lastIndexOf (take 300 y) (CHR ''.'') = - 1"
    "lastIndexOf (take 300 y) (CHR ''!'') = - 1" "lastIndexOf (take 300 y) (CHR ''?'') = - 1"
    by (simp_all add: lastIndexOf_absent isTerminal_def)
  then show ?thesis by (simp add: limitLength_def)
qed

lemma finalCleanup_plain: "set y \<subseteq> Collect plainChar \<Longrightarrow> finalCleanup y = y"
proof -
  assume a: "set y \<subseteq> Collect plainChar"
  have t: "trim y = y"
    by (rule trim_plain) (use a in \<open>auto simp: plainChar_def\<close>)
  have 1: "replaceAll [(isSpace, Plus)] (\<lambda>ps. '' '') y = y"
    by (rule replaceAll_dead[where S = "Collect plainChar"]) (use a dead_space in auto)
  have 2: "replaceAll [(chr (CHR 0x0A), Plus)] (\<lambda>ps. '' '') y = y"
    by (rule replaceAll_dead[where S = "Collect plainChar"]) (use a dead_newline in auto)
  have 3: "replaceAll [(chr (CHR ''.''), Plus)] (\<lambda>ps. ''.'') y = y"
    by (rule replaceAll_dead[where S = "Collect plainChar"]) (use a dead_period in auto)
  have 4: "replaceAll [(isTerminal, One), (isSpace, Star), (isTerminal, Plus)] (piece 0) y = y"
    by (rule replaceAll_dead[where S = "Collect plainChar"]) (use a dead_punct in auto)
  show ?thesis by (simp add: finalCleanup_def t 1 2 3 4)
qed

lemma core_plain:
  "set y \<subseteq> Collect plainChar \<Longrightarrow>
     dedupeSentences (stripPatterns (cutJson y)) = y"
  by (simp add: cutJson_plain stripPatterns_plain dedupe_plain)

lemma stripPrompt_plain:
  assumes "set raw \<subseteq> Collect plainChar"
  shows "stripPrompt raw p = (if startsWith raw p then drop (length p) raw else raw)"
proof -
  have "trim raw = raw"
    by (rule trim_plain) (use assms in \<open>auto simp: plainChar_def\<close>)
  moreover have "trim (drop (length p) raw) = drop (length p) raw"
    by (rule trim_plain) (use assms in \<open>auto simp: plainChar_def dest: in_set_dropD\<close>)
  ultimately show ?thesis by (simp add: stripPrompt_def)
qed

lemma clean_plain:
  assumes "list_all plainChar raw"
  shows "cleanGeneratedText raw p =
     (let y = (if startsWith raw p then drop (length p) raw else raw)
      in if y = [] then fallbackSentence else y)"
proof -
  define y where "y = (if startsWith raw p then drop (length p) raw else raw)"
  have r: "set raw \<subseteq> Collect plainChar" using assms by (rule plain_subset)
  have y: "set y \<subseteq> Collect plainChar"
    using r by (auto simp: y_def dest: in_set_dropD)
  have "stripPrompt raw p = y" using stripPrompt_plain[OF r] by (simp add: y_def)
  then have "finalCleanup (limitLength (dedupeSentences (stripPatterns (cutJson
              (stripPrompt raw p))))) = y"
    using core_plain[OF y] limitLength_plain[OF y] finalCleanup_plain[OF y] by simp
  then show ?thesis by (simp add: cleanGeneratedText_def Let_def y_def)
qed

lemma not_startsWith: "p \<noteq> [] \<Longrightarrow> raw \<noteq> [] \<Longrightarrow> hd raw \<noteq> hd p \<Longrightarrow> \<not> startsWith raw p"
  by (cases p; cases raw) (auto simp: startsWith_def)

lemma clean_plain_other:
  "list_all plainChar raw \<Longrightarrow> raw \<noteq> [] \<Longrightarrow> p \<noteq> [] \<Longrightarrow> hd raw \<noteq> hd p \<Longrightarrow>
     cleanGeneratedText raw p = raw"
  by (simp add: clean_plain not_startsWith)








section \<open>Properties of a turn\<close>










lemma nextTry2_environment:
  "nextTry2 gen rnd cur ch s = (Inr seg, s') \<Longrightarrow>
     baseEnvironment (environment seg) = getEnvironment (storyText seg)
     \<and> lighting (environment seg)
         = spreadLighting (presetLighting (environments (getEnvironment (storyText seg))))
             (lightingChange (environmentImpact ch))
     \<and> atmosphere (environment seg)
         = spreadAtmosphere (presetAtmosphere (environments (getEnvironment (storyText seg))))
             (atmosphereChange (environmentImpact ch))
     \<and> props (environment seg) = props (environment cur)"
  unfolding nextTry2_def Let_def
  by (auto split: sum.splits prod.splits)

lemma promptOf2_strings:
  "consequence ch = JString (narrow c) \<Longrightarrow> choiceText ch = JString (narrow t) \<Longrightarrow>
     promptOf2 cur ch s =
       Inr (if shouldRefreshPrompt s
            then (refreshPrompt2 cur (storySummary s) c,
                  resetSegmentCount (incrementSegmentCount s))
            else (standardPrompt2 (storySummary s) t c, incrementSegmentCount s))"
  by (simp add: promptOf2_def narrowText_narrow)

lemma joinConsequence_string:
  "joinConsequence (JString (narrow c)) g =
     Inr (if startsWith g c then g
          else c @ (if endsWith c ''.'' \<or> endsWith c ''!'' \<or> endsWith c ''?''
                    then '' '' else ''. '') @ g)"
  by (simp add: joinConsequence_def narrowText_narrow)

lemma completions_prompt:
  "completions (resetSegmentCount (incrementSegmentCount s)) = completions s"
  "completions (incrementSegmentCount s) = completions s"
  by (simp_all add: resetSegmentCount_def incrementSegmentCount_def)

lemma nextTry2_joins:
  assumes c: "consequence ch = JString (narrow c)" and t: "choiceText ch = JString (narrow t)"
    and g: "gen (completions s)
              (if shouldRefreshPrompt s then refreshPrompt2 cur (storySummary s) c
               else standardPrompt2 (storySummary s) t c) = Some g"
  shows "\<exists>seg s'. nextTry2 gen rnd cur ch s = (Inr seg, s')
     \<and> storyText seg =
         (if startsWith g c then g
          else c @ (if endsWith c ''.'' \<or> endsWith c ''!'' \<or> endsWith c ''?''
                    then '' '' else ''. '') @ g)"
proof (cases "shouldRefreshPrompt s")
  case True
  then show ?thesis
    using g unfolding nextTry2_def Let_def
    by (simp add: promptOf2_strings[OF c t] c joinConsequence_string generateText2_def
        completions_prompt split: prod.splits)
next
  case False
  then show ?thesis
    using g unfolding nextTry2_def Let_def
    by (simp add: promptOf2_strings[OF c t] c joinConsequence_string generateText2_def
        completions_prompt split: prod.splits)
qed

lemma flee_strings:
  "consequence fleeChoice = JString (narrow ''You flee'')"
  "choiceText fleeChoice = JString (narrow ''Run'')"
  by (simp_all add: fleeChoice_def mkChoice_def)

lemma flee_ok_joined:
  "(if startsWith ''ok'' ''You flee'' then ''ok''
    else ''You flee'' @ (if endsWith ''You flee'' ''.'' \<or> endsWith ''You flee'' ''!''
                            \<or> endsWith ''You flee'' ''?'' then '' '' else ''. '') @ ''ok'')
   = ''You flee. ok''"
  by (simp add: startsWith_def endsWith_def)

lemma ok_turn:
  "\<exists>seg s'. nextTry2 okGen rnd cur fleeChoice s = (Inr seg, s')
     \<and> storyText seg = ''You flee. ok''"
  using nextTry2_joins[OF flee_strings, of okGen s cur "''ok''" rnd]
  unfolding flee_ok_joined by (simp add: okGen_def)

lemma prompt_heads:
  "storyPromptOf r w cur \<noteq> []" "hd (storyPromptOf r w cur) = CHR 0x0A"
  "summaryPrompt prv tx \<noteq> []" "hd (summaryPrompt prv tx) = CHR 0x0A"
  "newSummaryPrompt w \<noteq> []" "hd (newSummaryPrompt w) = CHR 0x0A"
  "nextChoicesPrompt g \<noteq> []" "hd (nextChoicesPrompt g) = CHR ''A''"
  by (simp_all add: storyPromptOf_def buildPrompt_def buildFreshPrompt_def summaryPrompt_def
      newSummaryPrompt_def nextChoicesPrompt_def)

lemma generateText_plain:
  assumes "list_all plainChar w" "w \<noteq> []" "p \<noteq> []" "hd w \<noteq> hd p"
    and "\<And>n q. be n q = ResultSingle (Some w)"
  shows "generateText be p s = (Inr w, s\<lparr> completions := Suc (completions s) \<rparr>)"
  using assms by (simp add: generateText_def clean_plain_other)

lemma generateSummary_plain:
  assumes "list_all plainChar w" "w \<noteq> []" "hd w \<noteq> CHR 0x0A"
    and "\<And>n q. be n q = ResultSingle (Some w)"
  shows "generateSummary be tx prv s = (w, s\<lparr> completions := Suc (completions s) \<rparr>)"
proof -
  have "trim w = w"
    by (rule trim_plain) (use assms(1) in \<open>auto simp: plainChar_def list_all_iff\<close>)
  then show ?thesis
    using generateText_plain[OF assms(1) assms(2) prompt_heads(3), of prv tx be s]
      assms(3) assms(4)
    by (simp add: generateSummary_def prompt_heads)
qed

lemma initial_no_refresh: "\<not> shouldRefreshPrompt initialSession"
  by (simp add: shouldRefreshPrompt_def REFRESH_PROMPT_AFTER_SEGMENTS_def initialSession_def)


lemma nextTry_environment:
  "nextTry be rnd cur ch s = (Inr seg, s') \<Longrightarrow>
     lighting (environment seg)
       = spreadLighting (lighting (environment cur)) (lightingChange (environmentImpact ch))
     \<and> atmosphere (environment seg)
         = spreadAtmosphere (atmosphere (environment cur))
             (atmosphereChange (environmentImpact ch))
     \<and> props (environment seg) = props (environment cur)"
  unfolding nextTry_def Let_def
  by (auto split: sum.splits prod.splits)

lemma nextTry_text:
  "templateString (consequence ch) = Inr c \<Longrightarrow> nextTry be rnd cur ch s = (Inr seg, s') \<Longrightarrow>
     (let ws = (if shouldRefreshPrompt s
                then refreshStoryPrompt be (storySummary s) (incrementSegmentCount s)
                else (storySummary s, incrementSegmentCount s))
      in \<exists>g. fst (generateText be (storyPromptOf (shouldRefreshPrompt s) (fst ws) cur) (snd ws))
               = Inr g
            \<and> storyText seg = c @ '' '' @ g)"
  unfolding nextTry_def Let_def
  by (auto split: sum.splits prod.splits if_splits)

lemma ruin_environment: "nextEnvironmentOf ''forest'' ''ruin'' = ''ruins''"
  by code_simp

lemma ruin_plain: "list_all plainChar ''ruin''" "''ruin'' \<noteq> []"
  "hd ''ruin'' \<noteq> CHR 0x0A" "hd ''ruin'' \<noteq> CHR ''A''"
  by (simp_all add: plainChar_def isSpace_def isTerminal_def)

lemma ruin_text:
  "p \<noteq> [] \<Longrightarrow> hd p = CHR 0x0A \<or> hd p = CHR ''A'' \<Longrightarrow>
     generateText ruinBackend p s = (Inr ''ruin'', s\<lparr> completions := Suc (completions s) \<rparr>)"
  by (rule generateText_plain[OF ruin_plain(1) ruin_plain(2)])
     (auto simp: ruinBackend_def)

lemma ruin_summary:
  "generateSummary ruinBackend tx prv s
     = (''ruin'', s\<lparr> completions := Suc (completions s) \<rparr>)"
  by (rule generateSummary_plain[OF ruin_plain(1) ruin_plain(2) ruin_plain(3)])
     (simp add: ruinBackend_def)

lemma ruin_turn:
  "\<exists>seg s'. nextTry ruinBackend rnd initialFallbackSegment fleeChoice initialSession
               = (Inr seg, s')
     \<and> storyText seg = ''You flee ruin''
     \<and> baseEnvironment (environment seg) = ''ruins''
     \<and> lighting (environment seg)
         = spreadLighting (presetLighting forestPreset)
             (lightingChange (environmentImpact fleeChoice))"
proof -
  obtain cs where cs: "parseChoicesFromText rnd ''ruin'' = Inr cs"
    using parseChoices_two[of rnd "''ruin''"] by blast
  have b: "baseEnvironment (environment initialFallbackSegment) = ''forest''"
    "lighting (environment initialFallbackSegment) = presetLighting forestPreset"
    by (simp_all add: initialFallbackSegment_def forestEnvironment_def)
  show ?thesis
    unfolding nextTry_def Let_def
    by (simp add: initial_no_refresh flee_converts ruin_text prompt_heads ruin_summary cs b
        ruin_environment)
qed

lemma generateNext_success:
  "nextTry be rnd cur ch s = (Inr seg, s') \<Longrightarrow>
     generateNextStorySegment be rnd cur ch s = (Inr seg, s')"
  by (simp add: generateNextStorySegment_def)







text \<open>
  Claim C6, as the code has it. A turn whose \<open>try\<close> block returns carries the props of
  the current segment over. In the second variant the lighting and the atmosphere are
  those of the preset of the newly classified environment, overridden by the changes of
  the choice. In the first variant they are the lighting and the atmosphere of the
  current segment, overridden by the changes of the choice.
\<close>

theorem next_environment_merge:
  "(nextTry2 gen rnd cur ch s = (Inr seg, s') \<longrightarrow>
      baseEnvironment (environment seg) = getEnvironment (storyText seg)
      \<and> lighting (environment seg)
          = spreadLighting (presetLighting (environments (baseEnvironment (environment seg))))
              (lightingChange (environmentImpact ch))
      \<and> atmosphere (environment seg)
          = spreadAtmosphere
              (presetAtmosphere (environments (baseEnvironment (environment seg))))
              (atmosphereChange (environmentImpact ch))
      \<and> props (environment seg) = props (environment cur))
   \<and> (nextTry be rnd1 cur ch s = (Inr seg1, s1) \<longrightarrow>
        lighting (environment seg1)
          = spreadLighting (lighting (environment cur)) (lightingChange (environmentImpact ch))
        \<and> atmosphere (environment seg1)
            = spreadAtmosphere (atmosphere (environment cur))
                (atmosphereChange (environmentImpact ch))
        \<and> props (environment seg1) = props (environment cur))"
  using nextTry2_environment[of gen rnd cur ch s seg s']
    nextTry_environment[of be rnd1 cur ch s seg1 s1]
  by auto

text \<open>
  The hypotheses of C6 hold: the turn of the second variant with a generation that answers
  \<open>ok\<close> returns, and so does the turn of the first variant with a backend that answers
  \<open>ruin\<close>.
\<close>

theorem next_environment_merge_witness:
  "(\<exists>seg s'. nextTry2 okGen (\<lambda>n. 0) initialFallbackSegment fleeChoice initialSession
                = (Inr seg, s')
       \<and> lighting (environment seg)
           = spreadLighting (presetLighting (environments (baseEnvironment (environment seg))))
               (lightingChange (environmentImpact fleeChoice)))
   \<and> (\<exists>seg1 s1. nextTry ruinBackend (\<lambda>n. 0) initialFallbackSegment fleeChoice initialSession
                   = (Inr seg1, s1)
          \<and> lighting (environment seg1)
              = spreadLighting (lighting (environment initialFallbackSegment))
                  (lightingChange (environmentImpact fleeChoice)))"
proof -
  obtain seg s' where t: "nextTry2 okGen (\<lambda>n. 0) initialFallbackSegment fleeChoice
      initialSession = (Inr seg, s')"
    using ok_turn[of "\<lambda>n. 0" initialFallbackSegment initialSession] by blast
  obtain seg1 s1 where u: "nextTry ruinBackend (\<lambda>n. 0) initialFallbackSegment fleeChoice
      initialSession = (Inr seg1, s1)"
    using ruin_turn[of "\<lambda>n. 0"] by blast
  show ?thesis
    using next_environment_merge[of okGen "\<lambda>n. 0" initialFallbackSegment fleeChoice
        initialSession seg s' ruinBackend "\<lambda>n. 0" seg1 s1] t u
    by blast
qed

text \<open>
  Claim C6 as stated fails in the first variant. From the forest segment, with a backend
  whose every answer is \<open>ruin\<close>, the turn returns a segment classified as \<open>ruins\<close> whose
  lighting still has the colour of the forest preset, not that of the preset of the
  ruins.
\<close>

theorem first_variant_keeps_lighting_counterexample:
  "\<exists>seg s'. generateNextStorySegment ruinBackend (\<lambda>n. 0) initialFallbackSegment fleeChoice
               initialSession = (Inr seg, s')
     \<and> baseEnvironment (environment initialFallbackSegment) = ''forest''
     \<and> baseEnvironment (environment seg) = ''ruins''
     \<and> color (presetLighting (baseEnvironments ''ruins'')) = ''#e8d8c0''
     \<and> color (lighting (environment seg)) = ''#fdf4c4''
     \<and> lighting (environment seg)
         \<noteq> spreadLighting (presetLighting (baseEnvironments ''ruins''))
             (lightingChange (environmentImpact fleeChoice))"
proof -
  obtain seg s' where t: "nextTry ruinBackend (\<lambda>n. 0) initialFallbackSegment fleeChoice
      initialSession = (Inr seg, s')"
    and b: "baseEnvironment (environment seg) = ''ruins''"
    and l: "lighting (environment seg)
         = spreadLighting (presetLighting forestPreset)
             (lightingChange (environmentImpact fleeChoice))"
    using ruin_turn[of "\<lambda>n. 0"] by blast
  have c: "color (lighting (environment seg)) = ''#fdf4c4''"
    unfolding l
    by (simp add: spreadLighting_def fleeChoice_def mkChoice_def impact_def forestPreset_def)
  have d: "color (spreadLighting (presetLighting (baseEnvironments ''ruins''))
             (lightingChange (environmentImpact fleeChoice))) = ''#e8d8c0''"
    by (simp add: spreadLighting_def fleeChoice_def mkChoice_def impact_def ruinsPreset_def
        baseEnvironments_def)
  have e: "color (presetLighting (baseEnvironments ''ruins'')) = ''#e8d8c0''"
    by (simp add: ruinsPreset_def baseEnvironments_def)
  have f: "baseEnvironment (environment initialFallbackSegment) = ''forest''"
    by (simp add: initialFallbackSegment_def forestEnvironment_def)
  have "lighting (environment seg)
         \<noteq> spreadLighting (presetLighting (baseEnvironments ''ruins''))
             (lightingChange (environmentImpact fleeChoice))"
    using c d by auto
  then show ?thesis using generateNext_success[OF t] b c e f by blast
qed

text \<open>
  Claim C7, as the code has it. In the second variant, for a choice whose text and
  consequence are strings and a generation that answers \<open>g\<close>, the turn returns, and its
  text is \<open>g\<close> when \<open>g\<close> starts with the consequence, and otherwise the consequence, a
  space (after a period when the consequence does not end in \<open>.\<close>, \<open>!\<close> or \<open>?\<close>) and
  \<open>g\<close>. In the first variant the text of a turn that returns is the consequence, one
  space and the generated text, always.
\<close>

theorem next_text_join:
  "(consequence ch = JString (narrow c) \<and> choiceText ch = JString (narrow t)
      \<and> gen (completions s)
            (if shouldRefreshPrompt s then refreshPrompt2 cur (storySummary s) c
             else standardPrompt2 (storySummary s) t c) = Some g
      \<longrightarrow> (\<exists>seg s'. nextTry2 gen rnd cur ch s = (Inr seg, s')
             \<and> storyText seg =
                 (if startsWith g c then g
                  else c @ (if endsWith c ''.'' \<or> endsWith c ''!'' \<or> endsWith c ''?''
                            then '' '' else ''. '') @ g)))
   \<and> (templateString (consequence ch) = Inr c1 \<and> nextTry be rnd1 cur ch s = (Inr seg1, s1)
        \<longrightarrow> (let ws = (if shouldRefreshPrompt s
                         then refreshStoryPrompt be (storySummary s) (incrementSegmentCount s)
                         else (storySummary s, incrementSegmentCount s))
              in \<exists>g1. fst (generateText be
                              (storyPromptOf (shouldRefreshPrompt s) (fst ws) cur) (snd ws))
                         = Inr g1
                     \<and> storyText seg1 = c1 @ '' '' @ g1))"
  using nextTry2_joins[of ch c t gen s cur g rnd] nextTry_text[of ch c1 be rnd1 cur s seg1 s1]
  by blast

text \<open>
  The hypotheses of C7 hold for the choice \<open>Run\<close> with the consequence \<open>You flee\<close>: the
  second variant returns \<open>You flee. ok\<close>, and the turn of the first variant with a backend
  that answers \<open>ruin\<close> returns.
\<close>

theorem next_text_join_witness:
  "consequence fleeChoice = JString (narrow ''You flee'')
   \<and> choiceText fleeChoice = JString (narrow ''Run'')
   \<and> okGen (completions initialSession)
        (if shouldRefreshPrompt initialSession
         then refreshPrompt2 initialFallbackSegment (storySummary initialSession) ''You flee''
         else standardPrompt2 (storySummary initialSession) ''Run'' ''You flee'') = Some ''ok''
   \<and> (\<exists>seg s'. nextTry2 okGen (\<lambda>n. 0) initialFallbackSegment fleeChoice initialSession
                  = (Inr seg, s')
          \<and> storyText seg = ''You flee. ok'')
   \<and> templateString (consequence fleeChoice) = Inr ''You flee''
   \<and> (\<exists>seg1 s1 g1. nextTry ruinBackend (\<lambda>n. 0) initialFallbackSegment fleeChoice
                      initialSession = (Inr seg1, s1)
          \<and> storyText seg1 = ''You flee'' @ '' '' @ g1)"
proof -
  obtain seg1 s1 where u: "nextTry ruinBackend (\<lambda>n. 0) initialFallbackSegment fleeChoice
      initialSession = (Inr seg1, s1)"
    using ruin_turn[of "\<lambda>n. 0"] by blast
  note a = next_text_join[of fleeChoice "''You flee''" "''Run''" okGen initialSession
      initialFallbackSegment "''ok''" "\<lambda>n. 0" "''You flee''" ruinBackend "\<lambda>n. 0" seg1 s1]
  have g: "okGen (completions initialSession)
        (if shouldRefreshPrompt initialSession
         then refreshPrompt2 initialFallbackSegment (storySummary initialSession) ''You flee''
         else standardPrompt2 (storySummary initialSession) ''Run'' ''You flee'') = Some ''ok''"
    by (simp add: okGen_def)
  have 1: "\<exists>seg s'. nextTry2 okGen (\<lambda>n. 0) initialFallbackSegment fleeChoice initialSession
                  = (Inr seg, s')
          \<and> storyText seg = ''You flee. ok''"
    using a g flee_strings flee_ok_joined by simp
  have 2: "\<exists>seg1 s1 g1. nextTry ruinBackend (\<lambda>n. 0) initialFallbackSegment fleeChoice
                      initialSession = (Inr seg1, s1)
          \<and> storyText seg1 = ''You flee'' @ '' '' @ g1"
    using a u flee_converts by (auto simp: Let_def)
  show ?thesis using g flee_strings flee_converts 1 2 by blast
qed

text \<open>
  Claim C7 as stated fails in the first variant. The consequence \<open>You flee\<close> has no
  terminal punctuation; with a backend whose every answer is \<open>ruin\<close> the text of the
  turn is \<open>You flee ruin\<close>, joined by a space and no period.
\<close>

theorem first_variant_joins_with_space_counterexample:
  "\<exists>seg s'. generateNextStorySegment ruinBackend (\<lambda>n. 0) initialFallbackSegment fleeChoice
               initialSession = (Inr seg, s')
     \<and> consequence fleeChoice = JString (narrow ''You flee'')
     \<and> storyText seg = ''You flee ruin''"
proof -
  obtain seg s' where t: "nextTry ruinBackend (\<lambda>n. 0) initialFallbackSegment fleeChoice
      initialSession = (Inr seg, s')"
    and x: "storyText seg = ''You flee ruin''"
    using ruin_turn[of "\<lambda>n. 0"] by blast
  show ?thesis using generateNext_success[OF t] x flee_strings(1) by blast
qed

end
